theory Spec2Isabelle
  imports Complex_Main "HOL-Library.Product_Lexorder" "HOL-Library.Multiset"
begin

section \<open>Python values\<close>

subsection \<open>Strings\<close>

text \<open>
  A Python \<open>str\<close> is modelled as a \<^typ>\<open>string\<close> whose characters are the code points
  below 256 (Latin-1), one \<^typ>\<open>char\<close> per code point: the German literals of the source
  (the umlauts and the sharp s) fit, and \<open>len\<close>, slicing, \<open>in\<close>, \<open>strip\<close>, \<open>split\<close> and
  \<open>lower\<close> act on code points as in Python. Python's \<open>float\<close> is modelled by \<^typ>\<open>real\<close>
  (exact arithmetic).
\<close>

abbreviation nl :: char where "nl \<equiv> CHR 0x0A"
abbreviation a_uml :: char where "a_uml \<equiv> CHR 0xE4"
abbreviation o_uml :: char where "o_uml \<equiv> CHR 0xF6"
abbreviation u_uml :: char where "u_uml \<equiv> CHR 0xFC"
abbreviation eszett :: char where "eszett \<equiv> CHR 0xDF"

text \<open>\<open>str.isspace\<close> on one code point below 256.\<close>

definition isspace :: "char \<Rightarrow> bool" where
  "isspace c = (let n = (of_char c :: nat) in
     (9 \<le> n \<and> n \<le> 13) \<or> (28 \<le> n \<and> n \<le> 32) \<or> n = 133 \<or> n = 160)"

definition lstrip :: "string \<Rightarrow> string" where
  "lstrip s = dropWhile isspace s"

definition rstrip :: "string \<Rightarrow> string" where
  "rstrip s = rev (dropWhile isspace (rev s))"

definition strip :: "string \<Rightarrow> string" where
  "strip s = rstrip (lstrip s)"

text \<open>\<open>str.lower\<close>: \<open>A\<close>-\<open>Z\<close> and the upper-case letters \<open>0xC0\<close>-\<open>0xDE\<close> (without the
  multiplication sign \<open>0xD7\<close>) move up by 32.\<close>

definition lower_char :: "char \<Rightarrow> char" where
  "lower_char c = (let n = (of_char c :: nat) in
     if (65 \<le> n \<and> n \<le> 90) \<or> (192 \<le> n \<and> n \<le> 222 \<and> n \<noteq> 215)
     then char_of (n + 32) else c)"

definition lower :: "string \<Rightarrow> string" where
  "lower s = map lower_char s"

fun startswith :: "string \<Rightarrow> string \<Rightarrow> bool" where
  "startswith s [] = True"
| "startswith [] (p # ps) = False"
| "startswith (c # cs) (p # ps) = (c = p \<and> startswith cs ps)"

text \<open>\<open>str_in sub s\<close> is Python's \<open>sub in s\<close>.\<close>

fun str_in :: "string \<Rightarrow> string \<Rightarrow> bool" where
  "str_in sub [] = (sub = [])"
| "str_in sub (c # cs) = (startswith (c # cs) sub \<or> str_in sub cs)"

text \<open>\<open>any(word in s for word in words)\<close>.\<close>

definition any_in :: "string list \<Rightarrow> string \<Rightarrow> bool" where
  "any_in words s = list_ex (\<lambda>w. str_in w s) words"

text \<open>\<open>s.split('\n')\<close> and \<open>s.split('\n\n')\<close>.\<close>

fun split_lines :: "string \<Rightarrow> string list" where
  "split_lines [] = [[]]"
| "split_lines (c # cs) =
     (if c = nl then [] # split_lines cs
      else (case split_lines cs of [] \<Rightarrow> [[c]] | p # ps \<Rightarrow> (c # p) # ps))"

fun split_paragraphs :: "string \<Rightarrow> string list" where
  "split_paragraphs [] = [[]]"
| "split_paragraphs [c] = [[c]]"
| "split_paragraphs (c # d # cs) =
     (if c = nl \<and> d = nl then [] # split_paragraphs cs
      else (case split_paragraphs (d # cs) of [] \<Rightarrow> [[c]] | p # ps \<Rightarrow> (c # p) # ps))"

text \<open>\<open>sep.join(xs)\<close>.\<close>

fun join :: "string \<Rightarrow> string list \<Rightarrow> string" where
  "join sep [] = []"
| "join sep [x] = x"
| "join sep (x # y # ys) = x @ sep @ join sep (y # ys)"

text \<open>\<open>repr\<close> of a list of strings that need no escaping (the field names of the parser).\<close>

definition repr_list :: "string list \<Rightarrow> string" where
  "repr_list xs = ''['' @ join '', '' (map (\<lambda>x. [CHR 0x27] @ x @ [CHR 0x27]) xs) @ '']''"

subsection \<open>Decoded JSON documents and exceptions\<close>

text \<open>What \<open>json.loads\<close> returns; a \<open>dict\<close> keeps its keys in insertion order.\<close>

datatype json =
    JNull
  | JBool bool
  | JInt int
  | JFloat real
  | JStr string
  | JList "json list"
  | JObj "(string \<times> json) list"

datatype exn =
    ValueError string
  | AttributeError string
  | TypeError string
  | JSONDecodeError string
  | LMStudioError string
  | AnalysisEngineError string
  | OtherError string

text \<open>\<open>str(e)\<close>.\<close>

fun str_exn :: "exn \<Rightarrow> string" where
  "str_exn (ValueError m) = m"
| "str_exn (AttributeError m) = m"
| "str_exn (TypeError m) = m"
| "str_exn (JSONDecodeError m) = m"
| "str_exn (LMStudioError m) = m"
| "str_exn (AnalysisEngineError m) = m"
| "str_exn (OtherError m) = m"

fun type_name :: "json \<Rightarrow> string" where
  "type_name JNull = ''NoneType''"
| "type_name (JBool b) = ''bool''"
| "type_name (JInt i) = ''int''"
| "type_name (JFloat x) = ''float''"
| "type_name (JStr s) = ''str''"
| "type_name (JList xs) = ''list''"
| "type_name (JObj kvs) = ''dict''"

text \<open>Truth value of an object (\<open>bool(x)\<close>).\<close>

fun truthy :: "json \<Rightarrow> bool" where
  "truthy JNull = False"
| "truthy (JBool b) = b"
| "truthy (JInt i) = (i \<noteq> 0)"
| "truthy (JFloat x) = (x \<noteq> 0)"
| "truthy (JStr s) = (s \<noteq> [])"
| "truthy (JList xs) = (xs \<noteq> [])"
| "truthy (JObj kvs) = (kvs \<noteq> [])"

text \<open>\<open>key in d\<close> and \<open>d.get(key, default)\<close> on a dict.\<close>

definition has_key :: "(string \<times> json) list \<Rightarrow> string \<Rightarrow> bool" where
  "has_key kvs k = (map_of kvs k \<noteq> None)"

definition dict_get :: "(string \<times> json) list \<Rightarrow> string \<Rightarrow> json \<Rightarrow> json" where
  "dict_get kvs k d = (case map_of kvs k of None \<Rightarrow> d | Some v \<Rightarrow> v)"

text \<open>\<open>d[key] = value\<close>: an existing key keeps its position, a new key goes last.\<close>

fun dict_set :: "(string \<times> 'v) list \<Rightarrow> string \<Rightarrow> 'v \<Rightarrow> (string \<times> 'v) list" where
  "dict_set [] k v = [(k, v)]"
| "dict_set ((k', v') # kvs) k v =
     (if k' = k then (k, v) # kvs else (k', v') # dict_set kvs k v)"

text \<open>\<open>x.lower()\<close> on an arbitrary value: only a \<open>str\<close> has the method.\<close>

fun py_lower :: "json \<Rightarrow> exn + string" where
  "py_lower (JStr s) = Inr (lower s)"
| "py_lower v = Inl (AttributeError
     ([CHR 0x27] @ type_name v @ [CHR 0x27] @ '' object has no attribute '' @ [CHR 0x27] @ ''lower'' @ [CHR 0x27]))"

text \<open>\<open>len(x)\<close> on an arbitrary value.\<close>

fun py_len :: "json \<Rightarrow> exn + nat" where
  "py_len (JStr s) = Inr (length s)"
| "py_len (JList xs) = Inr (length xs)"
| "py_len (JObj kvs) = Inr (length kvs)"
| "py_len v = Inl (TypeError
     (''object of type '' @ [CHR 0x27] @ type_name v @ [CHR 0x27] @ '' has no len()''))"

section \<open>Response parser (response\_parser.py)\<close>

subsection \<open>Structural validation\<close>

record validation =
  valid :: bool
  v_confidence :: real
  v_errors :: "string list"
  v_warnings :: "string list"

text \<open>\<open>self.expected_fields.get(expected_format, [])\<close>.\<close>

definition expected_fields :: "string \<Rightarrow> string list" where
  "expected_fields expected_format =
     (if expected_format = ''structured_json'' then
        [''zusammenfassung'', ''handlungsschritte'', ''technische_loesungen'',
         ''risiken'', ''chancen'', ''erfolgsmessung'', ''naechste_schritte'']
      else if expected_format = ''quick_json'' then
        [''machbarkeit'', ''aufwand'', ''kosten'', ''zeitrahmen'', ''empfehlung'']
      else if expected_format = ''roi_json'' then
        [''investition'', ''einsparungen'', ''roi'', ''empfehlung'']
      else if expected_format = ''implementation_json'' then
        [''projektphasen'', ''ressourcen'', ''timeline'', ''erfolgskriterien'']
      else [])"

definition required_step_fields :: "string list" where
  "required_step_fields = [''titel'', ''beschreibung'', ''prioritaet'']"

text \<open>One round of the loop over \<open>handlungsschritte\<close> in \<open>_validate_analysis_structure\<close>.\<close>

fun step_quality :: "real \<Rightarrow> json \<Rightarrow> real" where
  "step_quality q (JObj step) =
     q * (real (length (filter (has_key step) required_step_fields))
          / real (length required_step_fields))"
| "step_quality q v = q * (8 / 10)"

definition validate_analysis_structure :: "(string \<times> json) list \<Rightarrow> real" where
  "validate_analysis_structure d =
     (let q1 = (case dict_get d ''handlungsschritte'' (JList []) of
                  JList steps \<Rightarrow> foldl step_quality 1 steps
                | _ \<Rightarrow> 1);
          q2 = (case dict_get d ''technische_loesungen'' (JList []) of
                  JList solutions \<Rightarrow> if solutions \<noteq> [] then q1 * (11 / 10) else q1
                | _ \<Rightarrow> q1)
      in min q2 1)"

definition valid_feasibility :: "string list" where
  "valid_feasibility = [''sehr gut'', ''gut'', ''mittel'', ''schwierig'', ''unrealistisch'']"

definition valid_recommendations :: "string list" where
  "valid_recommendations = [''go'', ''no-go'', u_uml # ''berdenken'']"

definition validate_feasibility_structure :: "(string \<times> json) list \<Rightarrow> exn + real" where
  "validate_feasibility_structure d =
     (case py_lower (dict_get d ''machbarkeit'' (JStr [])) of
        Inl e \<Rightarrow> Inl e
      | Inr feasibility \<Rightarrow>
          (let q1 = (if feasibility \<notin> set valid_feasibility then 1 * (7 / 10) else 1) in
           case py_lower (dict_get d ''empfehlung'' (JStr [])) of
             Inl e \<Rightarrow> Inl e
           | Inr recommendation \<Rightarrow>
               Inr (if recommendation \<notin> set valid_recommendations then q1 * (8 / 10) else q1)))"

text \<open>The tail of \<open>_validate_structure\<close>, once the confidence is known.\<close>

definition validation_result :: "real \<Rightarrow> string list \<Rightarrow> string list \<Rightarrow> validation" where
  "validation_result c errs warns =
     \<lparr>valid = (c > 5 / 10 \<and> errs = []), v_confidence = c, v_errors = errs, v_warnings = warns\<rparr>"

fun validate_structure :: "json \<Rightarrow> string \<Rightarrow> exn + validation" where
  "validate_structure (JObj d) expected_format =
     (let fields = expected_fields expected_format in
      if fields \<noteq> [] then
        (let present_fields = filter (has_key d) fields;
             missing_fields = filter (\<lambda>f. \<not> has_key d f) fields;
             c = real (length present_fields) / real (length fields);
             errs = (if missing_fields \<noteq> [] \<and> length missing_fields = length fields
                     then [''Keine erwarteten Felder gefunden: '' @ repr_list missing_fields]
                     else []);
             warns = (if missing_fields \<noteq> [] \<and> length missing_fields \<noteq> length fields
                      then [''Fehlende Felder: '' @ repr_list missing_fields]
                      else [])
         in if expected_format = ''structured_json'' then
              Inr (validation_result (c * validate_analysis_structure d) errs warns)
            else if expected_format = ''quick_json'' then
              (case validate_feasibility_structure d of
                 Inl e \<Rightarrow> Inl e
               | Inr q \<Rightarrow> Inr (validation_result (c * q) errs warns))
            else Inr (validation_result c errs warns))
      else Inr (validation_result (if d \<noteq> [] then 7 / 10 else 0) [] []))"
| "validate_structure v expected_format =
     Inr \<lparr>valid = False, v_confidence = 0, v_errors = [''Response ist kein Dictionary''],
          v_warnings = []\<rparr>"


subsection \<open>The library: json and re\<close>

text \<open>
  \<open>json.loads\<close>, \<open>re.findall\<close>, \<open>re.sub\<close> and \<open>re.match\<close> belong to Python's standard
  library, not to the program. The parser is modelled over an arbitrary library: every
  theorem about it holds for whatever these four functions answer. The regular
  expressions of the source are named by constructors.
\<close>

datatype pattern =
    FencedJson      \<comment> \<open>\<open>```json\s*(.*?)\s*```\<close>\<close>
  | FencedBlock     \<comment> \<open>\<open>```\s*(.*?)\s*```\<close>\<close>
  | BraceObject     \<comment> \<open>\<open>\{.*\}\<close>\<close>
  | BracketArray    \<comment> \<open>\<open>\[.*\]\<close>\<close>
  | HeadingBold     \<comment> \<open>\<open>^\*\*([^*]+)\*\*:?\s*$\<close>\<close>
  | HeadingHash     \<comment> \<open>\<open>^#+\s*([^#\n]+)$\<close>\<close>
  | HeadingColon    \<comment> \<open>\<open>^([A-Z...][^:\n]*):$\<close>, the class also holding the three upper-case umlauts\<close>
  | ListBullet      \<comment> \<open>\<open>^\s*[-*...]\s*(.+)$\<close>, the class also holding the bullet sign\<close>
  | ListNumbered    \<comment> \<open>\<open>^\s*\d+\.\s*(.+)$\<close>\<close>
  | ListLettered    \<comment> \<open>\<open>^\s*[a-z]\)\s*(.+)$\<close>\<close>

datatype substitution =
    DropFenceOpen        \<comment> \<open>\<open>```json\s*\<close> by the empty string\<close>
  | DropFenceClose       \<comment> \<open>\<open>```\s*$\<close> by the empty string\<close>
  | QuoteKeys            \<comment> \<open>\<open>(\w+):\<close> by \<open>"\1":\<close>\<close>
  | QuoteValues          \<comment> \<open>\<open>:\s*([^"\[\{\d\-][^,\}\]]*)\<close> by \<open>: "\1"\<close>\<close>
  | CommaBeforeBrace     \<comment> \<open>\<open>,\s*}\<close> by \<open>}\<close>\<close>
  | CommaBeforeBracket   \<comment> \<open>\<open>,\s*]\<close> by \<open>]\<close>\<close>

record pylib =
  json_loads :: "string \<Rightarrow> exn + json"
    \<comment> \<open>\<open>Inl (JSONDecodeError msg)\<close> when the text is not JSON\<close>
  re_findall :: "pattern \<Rightarrow> string \<Rightarrow> string list"
    \<comment> \<open>with the flags \<open>DOTALL | IGNORECASE\<close>; the group of each match, or the match\<close>
  re_sub :: "substitution \<Rightarrow> string \<Rightarrow> string"
  re_match :: "pattern \<Rightarrow> string \<Rightarrow> string option"
    \<comment> \<open>\<open>group(1)\<close> of the match at the start of the text, \<open>None\<close> without a match\<close>

definition json_patterns :: "pattern list" where
  "json_patterns = [FencedJson, FencedBlock, BraceObject, BracketArray]"

subsection \<open>Parse results and format detection\<close>

record ParseResult =
  success :: bool
  data :: json
  format_detected :: string
  confidence :: real
  errors :: "string list"
  warnings :: "string list"

definition detect_format :: "string \<Rightarrow> string" where
  "detect_format response =
     (let response_lower = lower response in
      if any_in [''{'', ''}'', ''['', '']''] response then
        (if str_in ''projektphasen'' response_lower then ''implementation_json''
         else if str_in ''machbarkeit'' response_lower then ''quick_json''
         else if str_in ''investition'' response_lower \<or> str_in ''roi'' response_lower
           then ''roi_json''
         else ''structured_json'')
      else ''text'')"

text \<open>The \<open>ParseResult\<close> built from a validation.\<close>

definition validated_result :: "validation \<Rightarrow> json \<Rightarrow> string \<Rightarrow> ParseResult" where
  "validated_result v d detected =
     \<lparr>success = valid v, data = d, format_detected = detected,
      confidence = v_confidence v, errors = v_errors v, warnings = v_warnings v\<rparr>"

definition failed_result :: "string \<Rightarrow> ParseResult" where
  "failed_result msg =
     \<lparr>success = False, data = JObj [], format_detected = ''none'',
      confidence = 0, errors = [msg], warnings = []\<rparr>"

subsection \<open>Strategy 1: direct parse\<close>

definition parse_clean_json :: "pylib \<Rightarrow> string \<Rightarrow> string \<Rightarrow> exn + ParseResult" where
  "parse_clean_json L response expected_format =
     (case json_loads L (strip response) of
        Inl (JSONDecodeError msg) \<Rightarrow> Inr (failed_result (''JSON Decode Error: '' @ msg))
      | Inl e \<Rightarrow> Inl e
      | Inr d \<Rightarrow>
          (case validate_structure d expected_format of
             Inl e \<Rightarrow> Inl e
           | Inr v \<Rightarrow> Inr (validated_result v d ''clean_json'')))"

subsection \<open>Strategy 2: fenced blocks\<close>

definition clean_json_string :: "pylib \<Rightarrow> string \<Rightarrow> string" where
  "clean_json_string L json_str =
     foldl (\<lambda>cleaned r. re_sub L r cleaned) (strip json_str)
       [DropFenceOpen, DropFenceClose, QuoteKeys, QuoteValues,
        CommaBeforeBrace, CommaBeforeBracket]"

text \<open>The two nested loops of \<open>_parse_markdown_json\<close>, over the matches of the four
  patterns in order.\<close>

fun try_matches :: "pylib \<Rightarrow> string \<Rightarrow> string list \<Rightarrow> exn + ParseResult" where
  "try_matches L expected_format [] =
     Inr (failed_result ''Kein valides JSON in Markdown gefunden'')"
| "try_matches L expected_format (m # ms) =
     (case json_loads L (clean_json_string L m) of
        Inl (JSONDecodeError msg) \<Rightarrow> try_matches L expected_format ms
      | Inl e \<Rightarrow> Inl e
      | Inr d \<Rightarrow>
          (case validate_structure d expected_format of
             Inl e \<Rightarrow> Inl e
           | Inr v \<Rightarrow>
               if valid v \<or> v_confidence v > 5 / 10
               then Inr (validated_result v d ''markdown_json'')
               else try_matches L expected_format ms))"

definition parse_markdown_json :: "pylib \<Rightarrow> string \<Rightarrow> string \<Rightarrow> exn + ParseResult" where
  "parse_markdown_json L response expected_format =
     try_matches L expected_format (concat (map (\<lambda>p. re_findall L p response) json_patterns))"

subsection \<open>Strategy 3: embedded objects, then sections and lists\<close>

text \<open>\<open>response[a:b]\<close> for \<open>0 \<le> a\<close>.\<close>

definition slice :: "string \<Rightarrow> nat \<Rightarrow> nat \<Rightarrow> string" where
  "slice s a b = take (b - a) (drop a s)"

text \<open>
  The character loop of \<open>_parse_mixed_content\<close>: \<open>i\<close> is the index of the next character,
  \<open>brace_start\<close> is \<open>None\<close> for the source's \<open>-1\<close>, \<open>brace_count\<close> may become negative.
\<close>

fun scan_braces ::
  "string \<Rightarrow> nat \<Rightarrow> nat option \<Rightarrow> int \<Rightarrow> string list \<Rightarrow> string \<Rightarrow> string list" where
  "scan_braces response i brace_start brace_count json_candidates [] = json_candidates"
| "scan_braces response i brace_start brace_count json_candidates (ch # rest) =
     (if ch = CHR ''{'' then
        scan_braces response (i + 1)
          (if brace_count = 0 then Some i else brace_start) (brace_count + 1)
          json_candidates rest
      else if ch = CHR ''}'' then
        (case brace_start of
           Some start \<Rightarrow>
             if brace_count - 1 = 0
             then scan_braces response (i + 1) None (brace_count - 1)
                    (json_candidates @ [slice response start (i + 1)]) rest
             else scan_braces response (i + 1) brace_start (brace_count - 1) json_candidates rest
         | None \<Rightarrow>
             scan_braces response (i + 1) brace_start (brace_count - 1) json_candidates rest)
      else scan_braces response (i + 1) brace_start brace_count json_candidates rest)"

text \<open>The loop over the candidates, keeping the result of strictly highest confidence.\<close>

fun best_candidate ::
  "pylib \<Rightarrow> string \<Rightarrow> ParseResult option \<Rightarrow> string list \<Rightarrow> exn + ParseResult option" where
  "best_candidate L expected_format best_result [] = Inr best_result"
| "best_candidate L expected_format best_result (candidate # cs) =
     (case json_loads L (clean_json_string L candidate) of
        Inl (JSONDecodeError msg) \<Rightarrow> best_candidate L expected_format best_result cs
      | Inl e \<Rightarrow> Inl e
      | Inr d \<Rightarrow>
          (case validate_structure d expected_format of
             Inl e \<Rightarrow> Inl e
           | Inr v \<Rightarrow>
               if (case best_result of None \<Rightarrow> True | Some b \<Rightarrow> v_confidence v > confidence b)
               then best_candidate L expected_format
                      (Some (validated_result v d ''mixed_content'')) cs
               else best_candidate L expected_format best_result cs))"

text \<open>The first of the patterns that matches the line, with its group.\<close>

fun first_match :: "pylib \<Rightarrow> pattern list \<Rightarrow> string \<Rightarrow> string option" where
  "first_match L [] line = None"
| "first_match L (p # ps) line =
     (case re_match L p line of Some g \<Rightarrow> Some g | None \<Rightarrow> first_match L ps line)"

text \<open>\<open>if current_section and current_content: sections[current_section] = ...\<close>\<close>

definition save_section ::
  "(string \<times> string) list \<Rightarrow> string option \<Rightarrow> string list \<Rightarrow> (string \<times> string) list" where
  "save_section sections current_section current_content =
     (case current_section of
        None \<Rightarrow> sections
      | Some title \<Rightarrow>
          if title \<noteq> [] \<and> current_content \<noteq> []
          then dict_set sections title (join [nl] current_content)
          else sections)"

text \<open>The loop over the lines in \<open>_find_text_sections\<close>; the state is
  \<open>(sections, current_section, current_content)\<close>.\<close>

fun section_lines ::
  "pylib \<Rightarrow> (string \<times> string) list \<Rightarrow> string option \<Rightarrow> string list \<Rightarrow> string list
     \<Rightarrow> (string \<times> string) list" where
  "section_lines L sections current_section current_content [] =
     save_section sections current_section current_content"
| "section_lines L sections current_section current_content (raw_line # rest) =
     (let line = strip raw_line in
      if line = [] then section_lines L sections current_section current_content rest
      else
        (case first_match L [HeadingBold, HeadingHash, HeadingColon] line of
           Some g \<Rightarrow>
             section_lines L (save_section sections current_section current_content)
               (Some (strip g)) [] rest
         | None \<Rightarrow>
             (case current_section of
                Some title \<Rightarrow>
                  if title \<noteq> []
                  then section_lines L sections current_section (current_content @ [line]) rest
                  else section_lines L sections current_section current_content rest
              | None \<Rightarrow> section_lines L sections current_section current_content rest)))"

definition find_text_sections :: "pylib \<Rightarrow> string \<Rightarrow> (string \<times> string) list" where
  "find_text_sections L text = section_lines L [] None [] (split_lines text)"

definition section_mappings :: "string \<Rightarrow> (string \<times> string list) list" where
  "section_mappings expected_format =
     (if expected_format = ''structured_json'' then
        [(''zusammenfassung'', [''zusammenfassung'', ''summary'', ''einsch'' @ a_uml # ''tzung'']),
         (''handlungsschritte'',
            [''handlungsschritte'', ''schritte'', ''ma'' @ eszett # ''nahmen'', ''actions'']),
         (''technische_loesungen'', [''technische'', ''l'' @ o_uml # ''sungen'', ''solutions'', ''tools'']),
         (''risiken'', [''risiken'', ''risks'', ''gefahren'']),
         (''chancen'', [''chancen'', ''opportunities'', ''vorteile'']),
         (''naechste_schritte'', [''n'' @ a_uml # ''chste'', ''next steps'', ''empfehlungen''])]
      else if expected_format = ''quick_json'' then
        [(''machbarkeit'', [''machbarkeit'', ''feasibility'']),
         (''aufwand'', [''aufwand'', ''effort'']),
         (''empfehlung'', [''empfehlung'', ''recommendation''])]
      else [])"

fun first_field :: "(string \<times> string list) list \<Rightarrow> string \<Rightarrow> string option" where
  "first_field [] title_lower = None"
| "first_field ((field, keywords) # rest) title_lower =
     (if any_in keywords title_lower then Some field else first_field rest title_lower)"

definition map_section_to_field :: "string \<Rightarrow> string \<Rightarrow> string option" where
  "map_section_to_field section_title expected_format =
     first_field (section_mappings expected_format) (lower section_title)"

text \<open>The three buckets of \<open>_extract_lists_from_text\<close>: the dict \<open>lists\<close> of the source, with
  its three keys.\<close>

definition bucket_of :: "string \<Rightarrow> string" where
  "bucket_of item =
     (let item_lower = lower item in
      if any_in [''schritt'', ''ma'' @ eszett # ''nahme'', ''aktion''] item_lower then ''schritte''
      else if any_in [''empfehlung'', ''sollte'', ''muss''] item_lower then ''empfehlungen''
      else ''allgemein'')"

definition bucket_append ::
  "(string \<times> string list) list \<Rightarrow> string \<Rightarrow> string \<Rightarrow> (string \<times> string list) list" where
  "bucket_append buckets key item =
     map (\<lambda>(k, items). if k = key then (k, items @ [item]) else (k, items)) buckets"

fun list_lines ::
  "pylib \<Rightarrow> (string \<times> string list) list \<Rightarrow> string list \<Rightarrow> (string \<times> string list) list" where
  "list_lines L buckets [] = buckets"
| "list_lines L buckets (line # rest) =
     (case first_match L [ListBullet, ListNumbered, ListLettered] line of
        Some g \<Rightarrow> list_lines L (bucket_append buckets (bucket_of (strip g)) (strip g)) rest
      | None \<Rightarrow> list_lines L buckets rest)"

definition extract_lists_from_text :: "pylib \<Rightarrow> string \<Rightarrow> (string \<times> string list) list" where
  "extract_lists_from_text L text =
     list_lines L [(''schritte'', []), (''empfehlungen'', []), (''allgemein'', [])]
       (split_lines text)"

definition lists_get :: "(string \<times> string list) list \<Rightarrow> string \<Rightarrow> string list" where
  "lists_get buckets key = (case map_of buckets key of None \<Rightarrow> [] | Some items \<Rightarrow> items)"

definition json_strings :: "string list \<Rightarrow> json" where
  "json_strings items = JList (map JStr items)"

text \<open>The loop over \<open>sections.items()\<close> in \<open>_extract_structured_text\<close>; the state is
  \<open>(extracted_data, confidence)\<close>.\<close>

fun map_sections ::
  "string \<Rightarrow> (string \<times> json) list \<times> real \<Rightarrow> (string \<times> string) list
     \<Rightarrow> (string \<times> json) list \<times> real" where
  "map_sections expected_format (extracted_data, c) [] = (extracted_data, c)"
| "map_sections expected_format (extracted_data, c) ((section_title, section_content) # rest) =
     (case map_section_to_field section_title expected_format of
        Some mapped_field \<Rightarrow>
          if mapped_field \<noteq> []
          then map_sections expected_format
                 (dict_set extracted_data mapped_field (JStr (strip section_content)), c + 1 / 10)
                 rest
          else map_sections expected_format (extracted_data, c) rest
      | None \<Rightarrow> map_sections expected_format (extracted_data, c) rest)"

definition extract_structured_text :: "pylib \<Rightarrow> string \<Rightarrow> string \<Rightarrow> ParseResult" where
  "extract_structured_text L response expected_format =
     (let (extracted_data, c) =
            map_sections expected_format ([], 4 / 10) (find_text_sections L response);
          buckets = extract_lists_from_text L response;
          (extracted_data', c') =
            (if buckets \<noteq> [] then
               ((if expected_format = ''structured_json'' then
                   dict_set
                     (dict_set extracted_data ''handlungsschritte''
                        (json_strings (lists_get buckets ''schritte'')))
                     ''naechste_schritte'' (json_strings (lists_get buckets ''empfehlungen''))
                 else extracted_data),
                c + 2 / 10)
             else (extracted_data, c))
      in \<lparr>success = (extracted_data' \<noteq> []), data = JObj extracted_data',
          format_detected = ''structured_text'', confidence = min c' 1, errors = [],
          warnings = [''Strukturierte Text-Extraktion - m'' @ o_uml # ''glicherweise unvollst''
                      @ a_uml # ''ndig'']\<rparr>)"

definition parse_mixed_content :: "pylib \<Rightarrow> string \<Rightarrow> string \<Rightarrow> exn + ParseResult" where
  "parse_mixed_content L response expected_format =
     (case best_candidate L expected_format None (scan_braces response 0 None 0 [] response) of
        Inl e \<Rightarrow> Inl e
      | Inr (Some best_result) \<Rightarrow> Inr best_result
      | Inr None \<Rightarrow> Inr (extract_structured_text L response expected_format))"

subsection \<open>Strategy 4: free text\<close>

definition extract_feasibility_from_text :: "string \<Rightarrow> (string \<times> json) list" where
  "extract_feasibility_from_text text =
     (let text_lower = lower text;
          feasibility =
            (if any_in [''sehr gut'', ''excellent'', ''einfach''] text_lower then ''sehr gut''
             else if any_in [''gut'', ''machbar'', ''realistisch''] text_lower then ''gut''
             else if any_in [''schwierig'', ''herausfordernd'', ''komplex''] text_lower
               then ''schwierig''
             else if any_in [''unrealistisch'', ''unm'' @ o_uml # ''glich'', ''nicht machbar'']
                       text_lower
               then ''unrealistisch''
             else ''mittel'');
          effort =
            (if any_in [''geringer aufwand'', ''wenig aufwand'', ''einfach''] text_lower
               then ''gering''
             else if any_in [''hoher aufwand'', ''sehr aufwendig'', ''kompliziert''] text_lower
               then ''hoch''
             else ''mittel'');
          recommendation =
            (if str_in ''empfehlung'' text_lower \<and> str_in ''ja'' text_lower then ''go''
             else if any_in [''nicht empfohlen'', ''nein'', ''stoppen''] text_lower then ''no-go''
             else if feasibility \<in> set [''sehr gut'', ''gut'']
                     \<and> effort \<in> set [''gering'', ''mittel'']
               then ''go''
             else u_uml # ''berdenken'')
      in [(''machbarkeit'', JStr feasibility), (''aufwand'', JStr effort),
          (''empfehlung'', JStr recommendation),
          (''begruendung'', JStr ''Aus Freitext extrahiert'')])"

text \<open>\<open>[p.strip() for p in text.split('\n\n') if p.strip()]\<close>\<close>

definition paragraphs_of :: "string \<Rightarrow> string list" where
  "paragraphs_of text = filter (\<lambda>p. p \<noteq> []) (map strip (split_paragraphs text))"

definition no_summary :: string where
  "no_summary = ''Keine Zusammenfassung verf'' @ u_uml # ''gbar''"

definition extract_analysis_from_text :: "pylib \<Rightarrow> string \<Rightarrow> (string \<times> json) list" where
  "extract_analysis_from_text L text =
     (let paragraphs = paragraphs_of text;
          summary = (case paragraphs of [] \<Rightarrow> no_summary | p # ps \<Rightarrow> p);
          buckets = extract_lists_from_text L text
      in [(''zusammenfassung'', JStr summary),
          (''handlungsschritte'',
             JList (map (\<lambda>item. JObj [(''titel'', JStr item), (''beschreibung'', JStr item)])
                      (lists_get buckets ''schritte''))),
          (''naechste_schritte'',
             json_strings (if lists_get buckets ''empfehlungen'' \<noteq> []
                           then lists_get buckets ''empfehlungen''
                           else lists_get buckets ''allgemein''))])"

definition extract_summary :: "string \<Rightarrow> string" where
  "extract_summary text =
     (case paragraphs_of text of
        [] \<Rightarrow> no_summary
      | summary # ps \<Rightarrow> if length summary > 300 then take 297 summary @ ''...'' else summary)"

definition extract_recommendations :: "string \<Rightarrow> string list" where
  "extract_recommendations text =
     filter (\<lambda>line. any_in [''empfehlung'', ''sollte'', ''muss'', ''wichtig'',
                             ''n'' @ a_uml # ''chster schritt''] (lower line))
       (map strip (split_lines text))"

definition parse_fallback_text :: "pylib \<Rightarrow> string \<Rightarrow> string \<Rightarrow> ParseResult" where
  "parse_fallback_text L response expected_format =
     (let extracted_data =
            (if expected_format = ''quick_json'' then extract_feasibility_from_text response
             else if expected_format = ''structured_json''
               then extract_analysis_from_text L response
             else [(''zusammenfassung'', JStr (extract_summary response)),
                   (''empfehlungen'', json_strings (extract_recommendations response))])
      in \<lparr>success = (extracted_data \<noteq> []), data = JObj extracted_data,
          format_detected = ''fallback_text'', confidence = 3 / 10, errors = [],
          warnings = [''Fallback Text-Parsing verwendet - Struktur m'' @ o_uml
                      # ''glicherweise unvollst'' @ a_uml # ''ndig'']\<rparr>)"

subsection \<open>The strategy chain\<close>

definition create_text_fallback :: "string \<Rightarrow> string list \<Rightarrow> json" where
  "create_text_fallback response errs =
     JObj [(''zusammenfassung'',
              JStr (''Parsing fehlgeschlagen - Originaltext verf'' @ u_uml # ''gbar'')),
           (''raw_response'', JStr response),
           (''parsing_errors'', json_strings errs),
           (''naechste_schritte'',
              json_strings [''Response manuell pr'' @ u_uml # ''fen'',
                            ''Prompt-Template '' @ u_uml # ''berarbeiten'',
                            ''KI-Modell-Parameter anpassen''])]"

datatype strategy = CleanJson | MarkdownJson | MixedContent | FallbackText

fun strategy_name :: "strategy \<Rightarrow> string" where
  "strategy_name CleanJson = ''_parse_clean_json''"
| "strategy_name MarkdownJson = ''_parse_markdown_json''"
| "strategy_name MixedContent = ''_parse_mixed_content''"
| "strategy_name FallbackText = ''_parse_fallback_text''"

fun run_strategy :: "pylib \<Rightarrow> strategy \<Rightarrow> string \<Rightarrow> string \<Rightarrow> exn + ParseResult" where
  "run_strategy L CleanJson response expected_format =
     parse_clean_json L response expected_format"
| "run_strategy L MarkdownJson response expected_format =
     parse_markdown_json L response expected_format"
| "run_strategy L MixedContent response expected_format =
     parse_mixed_content L response expected_format"
| "run_strategy L FallbackText response expected_format =
     Inr (parse_fallback_text L response expected_format)"

definition parse_strategies :: "strategy list" where
  "parse_strategies = [CleanJson, MarkdownJson, MixedContent, FallbackText]"

text \<open>
  How the \<open>for\<close> loop of \<open>parse_response\<close> ends: by \<open>return result.data\<close> inside the loop,
  or by running out of strategies with the collected errors and the best partial result.
\<close>

datatype loop_exit = Returned json | Exhausted "string list" "ParseResult option"

fun strategy_loop ::
  "pylib \<Rightarrow> string \<Rightarrow> string \<Rightarrow> string list \<Rightarrow> ParseResult option \<Rightarrow> strategy list
     \<Rightarrow> loop_exit" where
  "strategy_loop L raw_response expected_format errs best_result [] = Exhausted errs best_result"
| "strategy_loop L raw_response expected_format errs best_result (s # ss) =
     (case run_strategy L s raw_response expected_format of
        Inl e \<Rightarrow>
          strategy_loop L raw_response expected_format
            (errs @ [strategy_name s @ '': '' @ str_exn e]) best_result ss
      | Inr result \<Rightarrow>
          if success result then Returned (data result)
          else strategy_loop L raw_response expected_format (errs @ errors result)
                 (case best_result of
                    None \<Rightarrow> Some result
                  | Some b \<Rightarrow> if confidence result > confidence b then Some result else Some b)
                 ss)"

text \<open>The statements after the loop.\<close>

definition after_loop :: "string \<Rightarrow> loop_exit \<Rightarrow> json" where
  "after_loop raw_response ex =
     (case ex of
        Returned d \<Rightarrow> d
      | Exhausted errs None \<Rightarrow> create_text_fallback raw_response errs
      | Exhausted errs (Some best_result) \<Rightarrow>
          if truthy (data best_result) then data best_result
          else create_text_fallback raw_response errs)"

text \<open>\<open>if expected_format == "auto": expected_format = self._detect_format(raw_response)\<close>\<close>

definition resolve_format :: "string \<Rightarrow> string \<Rightarrow> string" where
  "resolve_format raw_response expected_format =
     (if expected_format = ''auto'' then detect_format raw_response else expected_format)"

text \<open>\<open>parse_response\<close> with the list of strategies as a parameter, and as the source
  has it.\<close>

definition parse_with ::
  "pylib \<Rightarrow> strategy list \<Rightarrow> string \<Rightarrow> string \<Rightarrow> exn + json" where
  "parse_with L strategies raw_response expected_format =
     (if raw_response = [] \<or> strip raw_response = []
      then Inl (ValueError ''Leere Response erhalten'')
      else
        Inr (after_loop raw_response
               (strategy_loop L raw_response (resolve_format raw_response expected_format)
                  [] None strategies)))"

definition parse_response :: "pylib \<Rightarrow> string \<Rightarrow> string \<Rightarrow> exn + json" where
  "parse_response L raw_response expected_format =
     parse_with L parse_strategies raw_response expected_format"

section \<open>Analysis engine (analysis\_engine.py)\<close>

subsection \<open>One analysis\<close>

text \<open>
  The fields of \<open>AIAnalysis\<close> that the engine fills from the reply (\<open>an_raw_response\<close> is
  the field \<open>raw_response\<close>); time stamps, the references to the two input records, the
  prompt messages, the processing time and the token counters are left out.
\<close>

record AIAnalysis =
  analysis_id :: string
  template_used :: string
  an_raw_response :: string
  analysis_summary :: json
  implementation_steps :: json
  technical_solutions :: json
  risks :: json
  opportunities :: json
  success_metrics :: json
  next_steps :: json
  recommendations :: json
  confidence_score :: real

text \<open>The table \<open>expected_fields\<close> of \<open>_calculate_confidence_score\<close>, with \<open>[]\<close> as default.\<close>

definition score_fields :: "string \<Rightarrow> string list" where
  "score_fields template_name =
     (if template_name = ''use_case_analysis''
        then [''zusammenfassung'', ''handlungsschritte'', ''technische_loesungen'']
      else if template_name = ''quick_feasibility''
        then [''machbarkeit'', ''aufwand'', ''empfehlung'']
      else if template_name = ''roi_analysis'' then [''investition'', ''einsparungen'', ''roi'']
      else if template_name = ''implementation_plan'' then [''projektphasen'', ''timeline'']
      else [])"

text \<open>The loop that adds \<open>len(parsed_data[field])\<close> for the fields that are present.\<close>

fun count_recommendations :: "(string \<times> json) list \<Rightarrow> string list \<Rightarrow> nat \<Rightarrow> exn + nat" where
  "count_recommendations parsed_data [] acc = Inr acc"
| "count_recommendations parsed_data (field # rest) acc =
     (case map_of parsed_data field of
        None \<Rightarrow> count_recommendations parsed_data rest acc
      | Some v \<Rightarrow>
          (case py_len v of
             Inl e \<Rightarrow> Inl e
           | Inr n \<Rightarrow> count_recommendations parsed_data rest (acc + n)))"

definition length_score :: "nat \<Rightarrow> real" where
  "length_score response_length =
     (if response_length > 2000 then 1
      else if response_length > 1000 then 8 / 10
      else if response_length > 500 then 6 / 10
      else 4 / 10)"

definition detail_score :: "nat \<Rightarrow> real" where
  "detail_score total_recommendations =
     (if total_recommendations \<ge> 5 then 1
      else if total_recommendations \<ge> 3 then 8 / 10
      else if total_recommendations \<ge> 1 then 6 / 10
      else 2 / 10)"

definition calculate_confidence_score ::
  "(string \<times> json) list \<Rightarrow> string \<Rightarrow> string \<Rightarrow> exn + real" where
  "calculate_confidence_score parsed_data raw_response template_name =
     (let required_fields = score_fields template_name;
          completeness =
            (if required_fields \<noteq> []
             then [real (length (filter (has_key parsed_data) required_fields))
                     / real (length required_fields)]
             else []);
          structure_score = (if parsed_data \<noteq> [] then 1 else 3 / 10)
      in case count_recommendations parsed_data
                [''handlungsschritte'', ''technische_loesungen'', ''naechste_schritte''] 0 of
           Inl e \<Rightarrow> Inl e
         | Inr total_recommendations \<Rightarrow>
             (let confidence_factors =
                    completeness @ [length_score (length raw_response), structure_score,
                                    detail_score total_recommendations]
              in Inr (if confidence_factors \<noteq> []
                      then sum_list confidence_factors / real (length confidence_factors)
                      else 5 / 10)))"

text \<open>
  What happens outside the model before the reply is parsed: the input records are
  validated, the prompt is built, the request is sent (with its retries) and the text
  of the reply is taken out. \<open>run_reply\<close> is the exception raised there, or the reply
  text; \<open>run_id\<close> is the identifier drawn for the analysis.
\<close>

record model_run =
  run_id :: string
  run_reply :: "exn + string"

text \<open>The two \<open>except\<close> clauses of \<open>analyze_use_case\<close>.\<close>

fun wrap_error :: "exn \<Rightarrow> exn" where
  "wrap_error (LMStudioError m) = AnalysisEngineError (''LM Studio Fehler: '' @ m)"
| "wrap_error e = AnalysisEngineError (''Analyse fehlgeschlagen: '' @ str_exn e)"

text \<open>The registry of templates, as far as the engine reads it: the expected format of
  each template name.\<close>

definition default_templates :: "string \<Rightarrow> string option" where
  "default_templates =
     [''use_case_analysis'' \<mapsto> ''structured_json'', ''quick_feasibility'' \<mapsto> ''quick_json'',
      ''roi_analysis'' \<mapsto> ''roi_json'', ''implementation_plan'' \<mapsto> ''implementation_json'']"

definition populate_analysis_fields ::
  "string \<Rightarrow> string \<Rightarrow> string \<Rightarrow> (string \<times> json) list \<Rightarrow> real \<Rightarrow> AIAnalysis" where
  "populate_analysis_fields ident template_name raw parsed_data c =
     \<lparr>analysis_id = ident, template_used = template_name, an_raw_response = raw,
      analysis_summary = dict_get parsed_data ''zusammenfassung'' (JStr []),
      implementation_steps = dict_get parsed_data ''handlungsschritte'' (JList []),
      technical_solutions = dict_get parsed_data ''technische_loesungen'' (JList []),
      risks = dict_get parsed_data ''risiken'' (JList []),
      opportunities = dict_get parsed_data ''chancen'' (JList []),
      success_metrics = dict_get parsed_data ''erfolgsmessung'' (JList []),
      next_steps = dict_get parsed_data ''naechste_schritte'' (JList []),
      recommendations = dict_get parsed_data ''empfehlungen'' (JList []),
      confidence_score = c\<rparr>"

text \<open>\<open>x.get(...)\<close> on a value that is not a dict.\<close>

definition no_get :: "json \<Rightarrow> exn" where
  "no_get v = AttributeError
     ([CHR 0x27] @ type_name v @ [CHR 0x27] @ '' object has no attribute '' @ [CHR 0x27]
      @ ''get'' @ [CHR 0x27])"

definition analyze_use_case ::
  "pylib \<Rightarrow> (string \<Rightarrow> string option) \<Rightarrow> model_run \<Rightarrow> string \<Rightarrow> exn + AIAnalysis" where
  "analyze_use_case L templates run template_name =
     (case templates template_name of
        None \<Rightarrow>
          Inl (wrap_error (AnalysisEngineError
                 (''Datenvalidierung fehlgeschlagen: Template '' @ [CHR 0x27] @ template_name
                  @ [CHR 0x27] @ '' nicht gefunden'')))
      | Some expected_format \<Rightarrow>
          (case run_reply run of
             Inl e \<Rightarrow> Inl (wrap_error e)
           | Inr raw \<Rightarrow>
               (case parse_response L raw expected_format of
                  Inl e \<Rightarrow> Inl (wrap_error e)
                | Inr (JObj parsed_data) \<Rightarrow>
                    (case calculate_confidence_score parsed_data raw template_name of
                       Inl e \<Rightarrow> Inl (wrap_error e)
                     | Inr c \<Rightarrow>
                         Inr (populate_analysis_fields (run_id run) template_name raw
                                parsed_data c))
                | Inr v \<Rightarrow> Inl (wrap_error (no_get v)))))"

subsection \<open>The feasibility probe\<close>

text \<open>The dict that \<open>quick_feasibility_check\<close> returns (and \<open>compare_use_cases\<close> extends by
  two keys); a key that the dict does not hold is \<open>None\<close>.\<close>

record feasibility =
  fr_analysis_id :: "string option"
  feasible :: bool
  feasibility_level :: "json option"
  effort :: "json option"
  cost_estimate :: "json option"
  timeframe :: "json option"
  main_obstacles :: "json option"
  fr_confidence :: real
  fr_error :: "string option"
  full_analysis :: "AIAnalysis option"
  use_case_index :: "nat option"
  use_case_title :: "string option"

text \<open>The \<open>except\<close> clause of \<open>quick_feasibility_check\<close>.\<close>

definition probe_failed :: "exn \<Rightarrow> feasibility" where
  "probe_failed e =
     \<lparr>fr_analysis_id = None, feasible = False, feasibility_level = None, effort = None,
      cost_estimate = None, timeframe = None, main_obstacles = None, fr_confidence = 0,
      fr_error = Some (str_exn e), full_analysis = None, use_case_index = None,
      use_case_title = None\<rparr>"

definition quick_feasibility_check ::
  "pylib \<Rightarrow> (string \<Rightarrow> string option) \<Rightarrow> model_run \<Rightarrow> feasibility" where
  "quick_feasibility_check L templates run =
     (case analyze_use_case L templates run ''quick_feasibility'' of
        Inl e \<Rightarrow> probe_failed e
      | Inr analysis \<Rightarrow>
          (case parse_response L (an_raw_response analysis) ''quick_json'' of
             Inl e \<Rightarrow> probe_failed e
           | Inr (JObj parsed_data) \<Rightarrow>
               \<lparr>fr_analysis_id = Some (analysis_id analysis),
                feasible = (dict_get parsed_data ''empfehlung'' (JStr (u_uml # ''berdenken''))
                            = JStr ''go''),
                feasibility_level = Some (dict_get parsed_data ''machbarkeit'' (JStr ''mittel'')),
                effort = Some (dict_get parsed_data ''aufwand'' (JStr ''mittel'')),
                cost_estimate = Some (dict_get parsed_data ''kosten'' (JStr ''unbekannt'')),
                timeframe = Some (dict_get parsed_data ''zeitrahmen'' (JStr ''unbekannt'')),
                main_obstacles = Some (dict_get parsed_data ''haupthindernisse'' (JList [])),
                fr_confidence = confidence_score analysis,
                fr_error = None, full_analysis = Some analysis, use_case_index = None,
                use_case_title = None\<rparr>
           | Inr v \<Rightarrow> probe_failed (no_get v)))"

subsection \<open>Notions for the strategy chain\<close>



subsection \<open>A library instance for plain text\<close>

text \<open>
  What the library answers on a text such as \<open>ok\<close>, which is not JSON and has no fence,
  bracket, heading or list marker: \<open>json.loads\<close> raises \<open>JSONDecodeError\<close>, no pattern is
  found or matched, and a substitution leaves the text as it is.
\<close>

definition lib_plain :: pylib where
  "lib_plain =
     \<lparr>json_loads = (\<lambda>s. Inl (JSONDecodeError ''Expecting value: line 1 column 1 (char 0)'')),
      re_findall = (\<lambda>p s. []),
      re_sub = (\<lambda>r s. s),
      re_match = (\<lambda>p s. None)\<rparr>"

subsection \<open>The confidence as the specification words it\<close>






text \<open>Example documents of the quick-feasibility format.\<close>

definition quick_sample :: "(string \<times> json) list" where
  "quick_sample =
     [(''machbarkeit'', JStr ''gut''), (''aufwand'', JStr ''mittel''),
      (''kosten'', JStr ''gering''), (''zeitrahmen'', JStr ''3 Monate''),
      (''empfehlung'', JStr ''go'')]"


subsection \<open>Comparing use cases\<close>

text \<open>\<open>str(n)\<close> for a natural number.\<close>

function str_nat :: "nat \<Rightarrow> string" where
  "str_nat n = (if n < 10 then [char_of (48 + n)] else str_nat (n div 10) @ [char_of (48 + n mod 10)])"
  by pat_completeness auto
termination
  by (relation "measure id") auto

text \<open>
  A use case as the forms store it (\<open>UseCase\<close> in config.py): texts, two groups of check
  boxes and the ratings; \<open>None\<close> is a key that the dict does not hold.
\<close>

record use_case =
  verantwortlich :: "string option"
  bereich :: "string option"
  status :: "string option"
  beschreibung :: "string option"
  problemstellung :: "string option"
  zielstellung :: "string option"
  ki_faehigkeiten :: "(string \<times> bool) list option"
  strategische_vorteile :: "(string \<times> bool) list option"
  bewertung :: "(string \<times> int) list option"
  entwicklungszeit :: "string option"

definition effort_to_score :: "json \<Rightarrow> exn + real" where
  "effort_to_score effort_str =
     (case py_lower effort_str of
        Inl e \<Rightarrow> Inl e
      | Inr s \<Rightarrow>
          Inr (if s = ''gering'' then 4
               else if s = ''mittel'' then 3
               else if s = ''hoch'' then 2
               else if s = ''sehr hoch'' then 1
               else 25 / 10))"

text \<open>The \<open>key\<close> function of the ranking.\<close>

definition rank_key :: "feasibility \<Rightarrow> exn + bool \<times> real \<times> real" where
  "rank_key x =
     (case effort_to_score (case effort x of None \<Rightarrow> JStr ''hoch'' | Some v \<Rightarrow> v) of
        Inl e \<Rightarrow> Inl e
      | Inr score \<Rightarrow> Inr (feasible x, fr_confidence x, score))"

text \<open>\<open>sorted\<close> first computes the key of every element, in order; an exception of the key
  function ends the call.\<close>

fun with_keys :: "feasibility list \<Rightarrow> exn + ((bool \<times> real \<times> real) \<times> feasibility) list" where
  "with_keys [] = Inr []"
| "with_keys (x # xs) =
     (case rank_key x of
        Inl e \<Rightarrow> Inl e
      | Inr k \<Rightarrow> (case with_keys xs of Inl e \<Rightarrow> Inl e | Inr kxs \<Rightarrow> Inr ((k, x) # kxs)))"

text \<open>\<open>sorted(..., reverse=True)\<close>: a stable sort of the reversed list, reversed again, so
  that elements with equal keys keep their order.\<close>

definition sorted_reverse :: "('k::linorder \<times> 'a) list \<Rightarrow> 'a list" where
  "sorted_reverse kxs = map snd (rev (sort_key fst (rev kxs)))"

text \<open>The loop that probes every use case.\<close>

fun probe_all ::
  "pylib \<Rightarrow> (string \<Rightarrow> string option) \<Rightarrow> (nat \<Rightarrow> model_run) \<Rightarrow> nat \<Rightarrow> use_case list
     \<Rightarrow> feasibility list" where
  "probe_all L templates runs i [] = []"
| "probe_all L templates runs i (uc # ucs) =
     (quick_feasibility_check L templates (runs i))
       \<lparr>use_case_index := Some i,
        use_case_title :=
          Some (take 50 (case beschreibung uc of
                           None \<Rightarrow> ''Use Case '' @ str_nat (i + 1)
                         | Some b \<Rightarrow> b))\<rparr>
     # probe_all L templates runs (i + 1) ucs"

text \<open>The result of \<open>compare_use_cases\<close> without its \<open>comparison_summary\<close> text.\<close>

record comparison =
  total_use_cases :: nat
  feasible_count :: nat
  ranked_results :: "feasibility list"
  recommendation :: "feasibility option"

definition compare_use_cases ::
  "pylib \<Rightarrow> (string \<Rightarrow> string option) \<Rightarrow> (nat \<Rightarrow> model_run) \<Rightarrow> use_case list
     \<Rightarrow> exn + comparison" where
  "compare_use_cases L templates runs use_cases =
     (if length use_cases < 2 then
        Inl (AnalysisEngineError
               (''Mindestens 2 Use Cases f'' @ u_uml # ''r Vergleich erforderlich''))
      else
        (let feasibility_results = probe_all L templates runs 0 use_cases in
         case with_keys feasibility_results of
           Inl e \<Rightarrow> Inl e
         | Inr keyed \<Rightarrow>
             (let ranked = sorted_reverse keyed in
              Inr \<lparr>total_use_cases = length use_cases,
                   feasible_count = length (filter feasible feasibility_results),
                   ranked_results = ranked,
                   recommendation = (case ranked of [] \<Rightarrow> None | r # rs \<Rightarrow> Some r)\<rparr>)))"

subsection \<open>A library instance for two JSON replies\<close>

text \<open>Two replies of the model in the quick-feasibility format, and what \<open>json.loads\<close>
  answers on them; the direct parse succeeds on both, so that the functions of \<open>re\<close> are
  not called.\<close>

definition quoted :: "string \<Rightarrow> string" where
  "quoted s = [CHR 0x22] @ s @ [CHR 0x22]"

definition json_text :: "(string \<times> string) list \<Rightarrow> string" where
  "json_text kvs = ''{'' @ join '', '' (map (\<lambda>(k, v). quoted k @ '': '' @ quoted v) kvs) @ ''}''"

definition reply_go :: string where
  "reply_go = json_text [(''machbarkeit'', ''gut''), (''aufwand'', ''mittel''),
     (''kosten'', ''gering''), (''zeitrahmen'', ''3 Monate''), (''empfehlung'', ''go'')]"

definition reply_nogo :: string where
  "reply_nogo = json_text [(''machbarkeit'', ''schwierig''), (''aufwand'', ''hoch''),
     (''kosten'', ''hoch''), (''zeitrahmen'', ''12 Monate''), (''empfehlung'', ''no-go'')]"

definition quick_nogo :: "(string \<times> json) list" where
  "quick_nogo =
     [(''machbarkeit'', JStr ''schwierig''), (''aufwand'', JStr ''hoch''),
      (''kosten'', JStr ''hoch''), (''zeitrahmen'', JStr ''12 Monate''),
      (''empfehlung'', JStr ''no-go'')]"

definition lib_quick :: pylib where
  "lib_quick =
     \<lparr>json_loads = (\<lambda>s. if s = reply_go then Inr (JObj quick_sample)
                         else if s = reply_nogo then Inr (JObj quick_nogo)
                         else Inl (JSONDecodeError ''Expecting value: line 1 column 1 (char 0)'')),
      re_findall = (\<lambda>p s. []),
      re_sub = (\<lambda>r s. s),
      re_match = (\<lambda>p s. None)\<rparr>"

text \<open>Three runs: the client gives up after its retries; the model answers with the
  first and with the second reply.\<close>

definition run_timeout :: model_run where
  "run_timeout = \<lparr>run_id = ''a0'', run_reply = Inl (LMStudioError ''Timeout nach 120 Sekunden'')\<rparr>"

definition run_go :: model_run where
  "run_go = \<lparr>run_id = ''a1'', run_reply = Inr reply_go\<rparr>"

definition run_nogo :: model_run where
  "run_nogo = \<lparr>run_id = ''a2'', run_reply = Inr reply_nogo\<rparr>"

text \<open>
  Use cases and the runs of their probes. A use case without a description does not
  pass \<open>validate_template_data\<close>: no request is sent for it, and the run ends with the
  validation error.
\<close>

definition empty_use_case :: use_case where
  "empty_use_case =
     \<lparr>verantwortlich = None, bereich = None, status = None, beschreibung = None,
      problemstellung = None, zielstellung = None, ki_faehigkeiten = None,
      strategische_vorteile = None, bewertung = None, entwicklungszeit = None\<rparr>"

definition quoting_use_case :: use_case where
  "quoting_use_case = empty_use_case\<lparr>beschreibung := Some ''Angebote mit KI erstellen''\<rparr>"

definition planning_use_case :: use_case where
  "planning_use_case = empty_use_case\<lparr>beschreibung := Some ''Termine mit KI planen''\<rparr>"

definition run_invalid :: model_run where
  "run_invalid =
     \<lparr>run_id = ''a3'',
      run_reply = Inl (AnalysisEngineError
        ''Datenvalidierung fehlgeschlagen: Fehlende Pflichtfelder: UseCase.beschreibung'')\<rparr>"

text \<open>Three use cases: the model rejects the first and accepts the second, the third
  has no description.\<close>

definition three_use_cases :: "use_case list" where
  "three_use_cases = [quoting_use_case, planning_use_case, empty_use_case]"

definition three_runs :: "nat \<Rightarrow> model_run" where
  "three_runs i = (if i = 0 then run_nogo else if i = 1 then run_go else run_invalid)"

text \<open>
  Two more replies: one gives the effort in upper case, one gives it as a number; and
  the library with the answers of \<open>json.loads\<close> on all four replies (the direct parse
  succeeds on each, so that the functions of \<open>re\<close> are not called).
\<close>

definition reply_gering :: string where
  "reply_gering = json_text [(''machbarkeit'', ''gut''), (''aufwand'', ''GERING''),
     (''kosten'', ''gering''), (''zeitrahmen'', ''3 Monate''), (''empfehlung'', ''go'')]"

definition quick_gering :: "(string \<times> json) list" where
  "quick_gering =
     [(''machbarkeit'', JStr ''gut''), (''aufwand'', JStr ''GERING''),
      (''kosten'', JStr ''gering''), (''zeitrahmen'', JStr ''3 Monate''),
      (''empfehlung'', JStr ''go'')]"

definition reply_number :: string where
  "reply_number = ''{'' @ quoted ''machbarkeit'' @ '': '' @ quoted ''gut'' @ '', ''
     @ quoted ''aufwand'' @ '': 3, '' @ quoted ''empfehlung'' @ '': '' @ quoted ''go'' @ ''}''"

definition quick_number :: "(string \<times> json) list" where
  "quick_number =
     [(''machbarkeit'', JStr ''gut''), (''aufwand'', JInt 3), (''empfehlung'', JStr ''go'')]"

definition lib_replies :: pylib where
  "lib_replies =
     \<lparr>json_loads = (\<lambda>s. if s = reply_go then Inr (JObj quick_sample)
                         else if s = reply_nogo then Inr (JObj quick_nogo)
                         else if s = reply_gering then Inr (JObj quick_gering)
                         else if s = reply_number then Inr (JObj quick_number)
                         else Inl (JSONDecodeError ''Expecting value: line 1 column 1 (char 0)'')),
      re_findall = (\<lambda>p s. []),
      re_sub = (\<lambda>r s. s),
      re_match = (\<lambda>p s. None)\<rparr>"

definition run_gering :: model_run where
  "run_gering = \<lparr>run_id = ''a4'', run_reply = Inr reply_gering\<rparr>"

definition run_number :: model_run where
  "run_number = \<lparr>run_id = ''a5'', run_reply = Inr reply_number\<rparr>"

definition two_use_cases :: "use_case list" where
  "two_use_cases = [quoting_use_case, planning_use_case]"

text \<open>The model answers with a medium effort for the first use case and with the effort
  in upper case, or as a number, for the second.\<close>

definition upper_runs :: "nat \<Rightarrow> model_run" where
  "upper_runs i = (if i = 0 then run_go else run_gering)"

definition number_runs :: "nat \<Rightarrow> model_run" where
  "number_runs i = (if i = 0 then run_go else run_number)"

subsection \<open>The ranking as the specification words it\<close>

text \<open>
  The effort table of the specification, read as written: the four texts score 4, 3, 2
  and 1, every other text scores 2.5. The key of the specification is the tuple of the
  feasible flag, the confidence and this score of the effort text (\<open>hoch\<close> when the record
  has no effort).
\<close>

definition effort_table :: "string \<Rightarrow> real" where
  "effort_table s =
     (if s = ''gering'' then 4
      else if s = ''mittel'' then 3
      else if s = ''hoch'' then 2
      else if s = ''sehr hoch'' then 1
      else 25 / 10)"

text \<open>The effort of a probe result is a text, or absent.\<close>

definition text_effort :: "feasibility \<Rightarrow> bool" where
  "text_effort x = (case effort x of None \<Rightarrow> True | Some (JStr s) \<Rightarrow> True | Some _ \<Rightarrow> False)"

definition effort_text :: "feasibility \<Rightarrow> string" where
  "effort_text x = (case effort x of Some (JStr s) \<Rightarrow> s | _ \<Rightarrow> ''hoch'')"

definition claimed_key :: "feasibility \<Rightarrow> bool \<times> real \<times> real" where
  "claimed_key x = (feasible x, fr_confidence x, effort_table (effort_text x))"

subsection \<open>A library instance for a text with two headings\<close>

text \<open>
  A reply in prose with the two headings \<open>Risiken:\<close> and \<open>Chancen:\<close>, each followed by one
  line, and what the library answers on it: the text is not JSON, it has no fence, brace
  or bracket, only the third heading pattern matches, on the two heading lines, and no
  line is a list item.
\<close>

definition sections_text :: string where
  "sections_text = ''Risiken:'' @ [nl] @ ''Kosten hoch'' @ [nl] @ ''Chancen:'' @ [nl] @ ''mehr Umsatz''"

definition lib_sections :: pylib where
  "lib_sections =
     \<lparr>json_loads = (\<lambda>s. Inl (JSONDecodeError ''Expecting value: line 1 column 1 (char 0)'')),
      re_findall = (\<lambda>p s. []),
      re_sub = (\<lambda>r s. s),
      re_match = (\<lambda>p line. if p = HeadingColon \<and> line = ''Risiken:'' then Some ''Risiken''
                             else if p = HeadingColon \<and> line = ''Chancen:'' then Some ''Chancen''
                             else None)\<rparr>"

text \<open>The sections whose title is mapped to a field of the format.\<close>

definition is_mapped :: "string \<Rightarrow> string \<times> string \<Rightarrow> bool" where
  "is_mapped expected_format sec =
     (case map_section_to_field (fst sec) expected_format of
        None \<Rightarrow> False | Some field \<Rightarrow> field \<noteq> [])"

definition mapped_sections :: "pylib \<Rightarrow> string \<Rightarrow> string \<Rightarrow> (string \<times> string) list" where
  "mapped_sections L response expected_format =
     filter (is_mapped expected_format) (find_text_sections L response)"

subsection \<open>The records of the specification\<close>

text \<open>The record \<open>{feasible: false, confidence: 0.0, error: msg}\<close> of the specification: it
  holds these three keys and no other.\<close>

definition error_record :: "string \<Rightarrow> feasibility" where
  "error_record msg =
     \<lparr>fr_analysis_id = None, feasible = False, feasibility_level = None, effort = None,
      cost_estimate = None, timeframe = None, main_obstacles = None, fr_confidence = 0,
      fr_error = Some msg, full_analysis = None, use_case_index = None,
      use_case_title = None\<rparr>"

text \<open>The closed interval from 0 to 1.\<close>

definition unit_range :: "real \<Rightarrow> bool" where
  "unit_range c = (0 \<le> c \<and> c \<le> 1)"

section \<open>Model client (lm\_studio\_client.py)\<close>

text \<open>
  What \<open>response.json()\<close> does on the body of a response: it returns the decoded
  document, or, when the body is not JSON, it raises the \<open>JSONDecodeError\<close> of the requests
  library (a \<open>RequestException\<close>) with a message.
\<close>

datatype reply_body = JsonBody json | NotJson string

text \<open>
  What one \<open>session.post\<close> of \<open>generate_completion\<close> ends with: a response with its status
  code, its text and its body, a timeout, or another exception of the requests library
  with its message.
\<close>

datatype http_outcome =
    Response nat string reply_body
  | Timeout
  | RequestException string

text \<open>The two settings of \<open>LMStudioConfig\<close> that the retry loop reads.\<close>

record client_config =
  timeout :: nat
  max_retries :: nat

text \<open>What the client did besides returning or raising: the waiting times passed to
  \<open>time.sleep\<close>, in order, and the number of requests sent.\<close>

record client_run =
  outcome :: "exn + json"
  sleeps :: "nat list"
  requests :: nat

text \<open>
  How one round of the loop body ends: by \<open>return result\<close>, by an exception that leaves
  the function, or with a failure that is recorded in \<open>last_error\<close> (its message is kept)
  and followed by the next round.
\<close>

datatype round_end = Return json | Raise exn | Failed string

text \<open>
  The body of the loop without the waiting. \<open>str_value\<close> is \<open>str(x)\<close> as the f-string renders
  the \<open>detail\<close> of a validation error (a function of the language, not of the program).
  \<open>result.get('usage', {})\<close> and \<open>usage.get(...)\<close> need dicts; an \<open>AttributeError\<close> is caught
  by neither \<open>except\<close> clause, the \<open>JSONDecodeError\<close> of \<open>response.json()\<close> is caught by the
  second one.
\<close>

definition attempt_round :: "(json \<Rightarrow> string) \<Rightarrow> client_config \<Rightarrow> http_outcome \<Rightarrow> round_end" where
  "attempt_round str_value cfg reply =
     (case reply of
        Response status_code body_text body \<Rightarrow>
          if status_code = 200 then
            (case body of
               NotJson msg \<Rightarrow> Failed (''Netzwerk-Fehler: '' @ msg)
             | JsonBody (JObj result) \<Rightarrow>
                 (case dict_get result ''usage'' (JObj []) of
                    JObj usage \<Rightarrow> Return (JObj result)
                  | v \<Rightarrow> Raise (no_get v))
             | JsonBody v \<Rightarrow> Raise (no_get v))
          else if status_code = 422 then
            (case body of
               NotJson msg \<Rightarrow> Failed (''Netzwerk-Fehler: '' @ msg)
             | JsonBody (JObj d) \<Rightarrow>
                 Raise (LMStudioError
                   (''Validierungsfehler: ''
                    @ str_value (dict_get d ''detail'' (JStr ''Validation Error''))))
             | JsonBody v \<Rightarrow> Raise (no_get v))
          else Failed (''HTTP '' @ str_nat status_code @ '': '' @ body_text)
      | Timeout \<Rightarrow> Failed (''Timeout nach '' @ str_nat (timeout cfg) @ '' Sekunden'')
      | RequestException msg \<Rightarrow> Failed (''Netzwerk-Fehler: '' @ msg))"

text \<open>\<open>if attempt < self.config.max_retries - 1: time.sleep(2 ** attempt)\<close>\<close>

definition backoff :: "client_config \<Rightarrow> nat \<Rightarrow> nat list \<Rightarrow> nat list" where
  "backoff cfg attempt slept =
     (if int attempt < int (max_retries cfg) - 1 then slept @ [2 ^ attempt] else slept)"

text \<open>
  The loop \<open>for attempt in range(self.config.max_retries)\<close> from the round \<open>attempt\<close> on, and
  the \<open>raise\<close> after it; \<open>server attempt\<close> is what the request of that round ends with.
\<close>

function retry_loop ::
  "(json \<Rightarrow> string) \<Rightarrow> client_config \<Rightarrow> (nat \<Rightarrow> http_outcome) \<Rightarrow> nat \<Rightarrow> exn option
     \<Rightarrow> nat list \<Rightarrow> client_run" where
  "retry_loop str_value cfg server attempt last_error slept =
     (if attempt < max_retries cfg then
        (case attempt_round str_value cfg (server attempt) of
           Return result \<Rightarrow>
             \<lparr>outcome = Inr result, sleeps = slept, requests = attempt + 1\<rparr>
         | Raise e \<Rightarrow>
             \<lparr>outcome = Inl e, sleeps = slept, requests = attempt + 1\<rparr>
         | Failed error_msg \<Rightarrow>
             retry_loop str_value cfg server (attempt + 1) (Some (LMStudioError error_msg))
               (backoff cfg attempt slept))
      else
        \<lparr>outcome = Inl (case last_error of
                          Some e \<Rightarrow> e
                        | None \<Rightarrow> LMStudioError ''Unbekannter Fehler''),
         sleeps = slept, requests = attempt\<rparr>)"
  by pat_completeness auto
termination
  by (relation "measure (\<lambda>(str_value, cfg, server, attempt, last_error, slept).
                           max_retries cfg - attempt)")
     auto

definition generate_completion ::
  "(json \<Rightarrow> string) \<Rightarrow> client_config \<Rightarrow> (nat \<Rightarrow> http_outcome) \<Rightarrow> client_run" where
  "generate_completion str_value cfg server = retry_loop str_value cfg server 0 None []"

subsection \<open>Notions for the retry loop\<close>

text \<open>A round that failed and is followed by the next one, and the reason recorded.\<close>

definition is_failed :: "round_end \<Rightarrow> bool" where
  "is_failed r = (case r of Failed msg \<Rightarrow> True | _ \<Rightarrow> False)"

definition reason :: "round_end \<Rightarrow> string" where
  "reason r = (case r of Failed msg \<Rightarrow> msg | _ \<Rightarrow> [])"

subsection \<open>Example servers\<close>

text \<open>\<open>str(x)\<close> on the values of the examples, which are texts.\<close>

definition str_text :: "json \<Rightarrow> string" where
  "str_text v = (case v of JStr s \<Rightarrow> s | _ \<Rightarrow> type_name v)"

text \<open>
  A server that answers 503 twice and then 200 with a completion, one that rejects the
  request with a JSON body, one that never answers in time, and one that rejects the
  request with a body of plain text, on which \<open>response.json()\<close> raises.
\<close>

definition completion :: json where
  "completion = JObj [(''choices'', JList []), (''usage'', JObj [(''total_tokens'', JInt 7)])]"

definition flaky_server :: "nat \<Rightarrow> http_outcome" where
  "flaky_server attempt =
     (if attempt < 2 then Response 503 ''Service Unavailable'' (NotJson ''Expecting value: line 1 column 1 (char 0)'')
      else Response 200 [] (JsonBody completion))"

definition rejecting_server :: "nat \<Rightarrow> http_outcome" where
  "rejecting_server attempt =
     Response 422 [] (JsonBody (JObj [(''detail'', JStr ''messages must not be empty'')]))"

definition silent_server :: "nat \<Rightarrow> http_outcome" where
  "silent_server attempt = Timeout"

definition plain_rejecting_server :: "nat \<Rightarrow> http_outcome" where
  "plain_rejecting_server attempt =
     Response 422 ''Unprocessable Entity''
       (NotJson ''Expecting value: line 1 column 1 (char 0)'')"

definition default_config :: client_config where
  "default_config = \<lparr>timeout = 120, max_retries = 3\<rparr>"

section \<open>Prompt builder (promt\_templates.py)\<close>

text \<open>
  A company profile as the forms store it (\<open>CompanyProfile\<close> in config.py), as far as the
  prompt reads it: texts and two groups of check boxes; \<open>None\<close> is a key that the dict does
  not hold.
\<close>

record company_profile =
  unternehmensname :: "string option"
  branche :: "string option"
  mitarbeiter :: "string option"
  umsatzklasse :: "string option"
  geschaeftsradius :: "string option"
  hauptleistungen :: "string option"
  digitale_systeme :: "(string \<times> bool) list option"
  digitalisierungsgrad :: "string option"
  herausforderungen :: "(string \<times> bool) list option"
  ki_verstaendnis :: "string option"
  ki_anwendungen :: "string option"

text \<open>\<open>d.get(key, 'N/A')\<close> inside an f-string, and the truth value of \<open>d.get(key)\<close> for a
  text.\<close>

definition or_na :: "string option \<Rightarrow> string" where
  "or_na v = (case v of None \<Rightarrow> ''N/A'' | Some s \<Rightarrow> s)"

definition nonempty :: "string option \<Rightarrow> bool" where
  "nonempty v = (case v of None \<Rightarrow> False | Some s \<Rightarrow> s \<noteq> [])"

text \<open>\<open>str(i)\<close> for an integer.\<close>

definition str_int :: "int \<Rightarrow> string" where
  "str_int i = (if i < 0 then ''-'' @ str_nat (nat (- i)) else str_nat (nat i))"

definition format_selected_items :: "(string \<times> bool) list \<Rightarrow> string" where
  "format_selected_items items_dict =
     (let selected = map fst (filter snd items_dict) in
      if selected \<noteq> [] then join [nl] (map (\<lambda>item. ''- '' @ item) selected) else [])"

text \<open>\<open>self._format_selected_items(d.get(key, {}))\<close>\<close>

definition selected_of :: "(string \<times> bool) list option \<Rightarrow> string" where
  "selected_of flags_opt = format_selected_items (case flags_opt of None \<Rightarrow> [] | Some flags \<Rightarrow> flags)"

text \<open>The list \<open>sections\<close> that \<open>_format_company_profile\<close> builds, and its result.\<close>

definition company_sections :: "company_profile \<Rightarrow> string list" where
  "company_sections profile =
     [''**Unternehmen:** '' @ or_na (unternehmensname profile) @ [nl]
      @ ''**Branche:** '' @ or_na (branche profile) @ [nl]
      @ ''**Mitarbeiter:** '' @ or_na (mitarbeiter profile) @ [nl]
      @ ''**Umsatzklasse:** '' @ or_na (umsatzklasse profile) @ [nl]
      @ ''**Gesch'' @ [a_uml] @ ''ftsradius:** '' @ or_na (geschaeftsradius profile)]
     @ (if nonempty (hauptleistungen profile)
        then [''**Hauptleistungen:**'' @ [nl] @ the (hauptleistungen profile)] else [])
     @ (if selected_of (digitale_systeme profile) \<noteq> []
        then [''**Digitale Systeme:**'' @ [nl] @ selected_of (digitale_systeme profile)] else [])
     @ [''**Digitalisierungsgrad:** '' @ or_na (digitalisierungsgrad profile)]
     @ (if selected_of (herausforderungen profile) \<noteq> []
        then [''**Aktuelle Herausforderungen:**'' @ [nl] @ selected_of (herausforderungen profile)]
        else [])
     @ [''**KI-Verst'' @ [a_uml] @ ''ndnis:** '' @ or_na (ki_verstaendnis profile)]
     @ (if nonempty (ki_anwendungen profile)
        then [''**Bereits genutzte KI:**'' @ [nl] @ the (ki_anwendungen profile)] else [])"

definition format_company_profile :: "company_profile \<Rightarrow> string" where
  "format_company_profile profile = join [nl, nl] (company_sections profile)"

text \<open>The same for \<open>_format_use_case\<close>; a rating is rendered as \<open>- criterion: value/5\<close>.\<close>

definition bewertung_text :: "(string \<times> int) list \<Rightarrow> string" where
  "bewertung_text ratings =
     join [nl] (map (\<lambda>(k, v). ''- '' @ k @ '': '' @ str_int v @ ''/5'') ratings)"

definition use_case_sections :: "use_case \<Rightarrow> string list" where
  "use_case_sections uc =
     [''**Verantwortlich:** '' @ or_na (verantwortlich uc) @ [nl]
      @ ''**Bereich:** '' @ or_na (bereich uc) @ [nl]
      @ ''**Status:** '' @ or_na (status uc)]
     @ (if nonempty (beschreibung uc)
        then [''**Beschreibung:**'' @ [nl] @ the (beschreibung uc)] else [])
     @ (if nonempty (problemstellung uc)
        then [''**Problemstellung:**'' @ [nl] @ the (problemstellung uc)] else [])
     @ (if nonempty (zielstellung uc)
        then [''**Zielstellung:**'' @ [nl] @ the (zielstellung uc)] else [])
     @ (if selected_of (ki_faehigkeiten uc) \<noteq> []
        then [''**Ben'' @ [o_uml] @ ''tigte KI-F'' @ [a_uml] @ ''higkeiten:**'' @ [nl]
              @ selected_of (ki_faehigkeiten uc)]
        else [])
     @ (if selected_of (strategische_vorteile uc) \<noteq> []
        then [''**Erwartete strategische Vorteile:**'' @ [nl]
              @ selected_of (strategische_vorteile uc)]
        else [])
     @ (case bewertung uc of
          None \<Rightarrow> []
        | Some ratings \<Rightarrow>
            if ratings \<noteq> [] then [''**Technische Bewertung:**'' @ [nl] @ bewertung_text ratings]
            else [])
     @ (if nonempty (entwicklungszeit uc)
        then [''**Gesch'' @ [a_uml] @ ''tzte Entwicklungszeit:** '' @ the (entwicklungszeit uc)]
        else [])"

definition format_use_case :: "use_case \<Rightarrow> string" where
  "format_use_case uc = join [nl, nl] (use_case_sections uc)"

subsection \<open>Notions and examples for the prompt\<close>

text \<open>A rendered text block has a section that starts with the label.\<close>

definition has_section :: "string \<Rightarrow> string list \<Rightarrow> bool" where
  "has_section label secs = list_ex (\<lambda>sec. startswith sec label) secs"

text \<open>A group of check boxes has a box that is set.\<close>

definition any_set :: "(string \<times> bool) list option \<Rightarrow> bool" where
  "any_set flags_opt = (case flags_opt of None \<Rightarrow> False | Some flags \<Rightarrow> list_ex snd flags)"

text \<open>A profile without any key, and the profile of the test in the source.\<close>

definition empty_profile :: company_profile where
  "empty_profile =
     \<lparr>unternehmensname = None, branche = None, mitarbeiter = None, umsatzklasse = None,
      geschaeftsradius = None, hauptleistungen = None, digitale_systeme = None,
      digitalisierungsgrad = None, herausforderungen = None, ki_verstaendnis = None,
      ki_anwendungen = None\<rparr>"

definition muster_profile :: company_profile where
  "muster_profile =
     empty_profile
       \<lparr>unternehmensname := Some ''Muster Handwerk GmbH'',
        branche := Some ''Elektroinstallation'',
        mitarbeiter := Some ''15'',
        hauptleistungen := Some ''Elektroinstallationen, Smart Home'',
        digitale_systeme := Some [(''Digitale Zeiterfassung'', True), (''CAD-Software'', True),
                                  (''Buchhaltungssoftware'', False)]\<rparr>"


section \<open>Verification\<close>

subsection \<open>Structural validation\<close>








subsection \<open>The parser never fails on a non-blank text\<close>

lemma strip_empty_iff: "strip s = [] \<longleftrightarrow> list_all isspace s"
proof -
  have "dropWhile isspace (rev (dropWhile isspace s)) = [] \<longleftrightarrow> dropWhile isspace s = []"
  proof
    assume a: "dropWhile isspace (rev (dropWhile isspace s)) = []"
    show "dropWhile isspace s = []"
    proof (rule ccontr)
      assume n: "dropWhile isspace s \<noteq> []"
      then have "\<not> isspace (hd (dropWhile isspace s))" by (rule hd_dropWhile)
      moreover from n have "hd (dropWhile isspace s) \<in> set (rev (dropWhile isspace s))" by simp
      moreover from a have "\<forall>x\<in>set (rev (dropWhile isspace s)). isspace x"
        by (simp only: dropWhile_eq_Nil_conv)
      ultimately show False by blast
    qed
  qed (auto dest: set_dropWhileD)
  then show ?thesis
    by (simp add: strip_def rstrip_def lstrip_def dropWhile_eq_Nil_conv list_all_iff)
qed

lemma validate_structure_valid_obj:
  "validate_structure d fmt = Inr v \<Longrightarrow> valid v \<Longrightarrow> \<exists>kvs. d = JObj kvs"
  by (cases d) auto

lemma validated_result_sel [simp]:
  "success (validated_result v d n) = valid v"
  "data (validated_result v d n) = d"
  "confidence (validated_result v d n) = v_confidence v"
  by (simp_all add: validated_result_def)

lemma failed_result_sel [simp]:
  "success (failed_result m) = False"
  "data (failed_result m) = JObj []"
  "confidence (failed_result m) = 0"
  by (simp_all add: failed_result_def)

lemma parse_clean_json_obj:
  "parse_clean_json L raw fmt = Inr r \<Longrightarrow> success r \<Longrightarrow> \<exists>kvs. data r = JObj kvs"
  by (auto simp: parse_clean_json_def split: sum.splits exn.splits dest: validate_structure_valid_obj)

lemma try_matches_obj:
  "try_matches L fmt ms = Inr r \<Longrightarrow> success r \<Longrightarrow> \<exists>kvs. data r = JObj kvs"
  by (induction ms) (auto split: sum.splits exn.splits if_splits dest: validate_structure_valid_obj)

lemma validated_result_obj:
  "validate_structure d fmt = Inr v \<Longrightarrow> success (validated_result v d n)
     \<Longrightarrow> \<exists>kvs. data (validated_result v d n) = JObj kvs"
  by (auto dest: validate_structure_valid_obj)

lemma best_candidate_obj:
  "best_candidate L fmt best cs = Inr (Some r) \<Longrightarrow> success r
    \<Longrightarrow> (\<forall>b. best = Some b \<longrightarrow> success b \<longrightarrow> (\<exists>kvs. data b = JObj kvs))
    \<Longrightarrow> \<exists>kvs. data r = JObj kvs"
proof (induction cs arbitrary: best)
  case Nil
  then show ?case by simp
next
  case (Cons c cs)
  show ?case
  proof (cases "json_loads L (clean_json_string L c)")
    case (Inl e)
    with Cons.prems(1) have "best_candidate L fmt best cs = Inr (Some r)"
      by (cases e) simp_all
    from Cons.IH [OF this Cons.prems(2) Cons.prems(3)] show ?thesis .
  next
    case (Inr d)
    show ?thesis
    proof (cases "validate_structure d fmt")
      case (Inl e)
      with Inr Cons.prems(1) show ?thesis by simp
    next
      case v: (Inr v)
      let ?new = "validated_result v d ''mixed_content''"
      have new: "\<forall>b. Some ?new = Some b \<longrightarrow> success b \<longrightarrow> (\<exists>kvs. data b = JObj kvs)"
        using validated_result_obj [OF v] by blast
      from Inr v Cons.prems(1)
      consider "best_candidate L fmt (Some ?new) cs = Inr (Some r)"
        | "best_candidate L fmt best cs = Inr (Some r)"
        by (simp split: if_splits)
      then show ?thesis
      proof cases
        case 1
        from Cons.IH [OF 1 Cons.prems(2) new] show ?thesis .
      next
        case 2
        from Cons.IH [OF 2 Cons.prems(2) Cons.prems(3)] show ?thesis .
      qed
    qed
  qed
qed

lemma extract_structured_text_obj: "\<exists>kvs. data (extract_structured_text L raw fmt) = JObj kvs"
  by (simp add: extract_structured_text_def Let_def split: prod.splits)

lemma parse_mixed_content_obj:
  "parse_mixed_content L raw fmt = Inr r \<Longrightarrow> success r \<Longrightarrow> \<exists>kvs. data r = JObj kvs"
proof -
  assume a: "parse_mixed_content L raw fmt = Inr r" and s: "success r"
  show ?thesis
  proof (cases "best_candidate L fmt None (scan_braces raw 0 None 0 [] raw)")
    case (Inl e)
    with a show ?thesis by (simp add: parse_mixed_content_def)
  next
    case (Inr best)
    show ?thesis
    proof (cases best)
      case None
      with Inr a have "r = extract_structured_text L raw fmt"
        by (simp add: parse_mixed_content_def)
      then show ?thesis using extract_structured_text_obj by simp
    next
      case (Some b)
      with Inr a have "best_candidate L fmt None (scan_braces raw 0 None 0 [] raw) = Inr (Some r)"
        by (simp add: parse_mixed_content_def)
      from best_candidate_obj [OF this s] show ?thesis by simp
    qed
  qed
qed

lemma parse_fallback_text_facts:
  "success (parse_fallback_text L raw fmt)"
  "\<exists>kvs. kvs \<noteq> [] \<and> data (parse_fallback_text L raw fmt) = JObj kvs"
  "confidence (parse_fallback_text L raw fmt) = 3 / 10"
  by (simp_all add: parse_fallback_text_def Let_def extract_feasibility_from_text_def
      extract_analysis_from_text_def)

lemma run_strategy_obj:
  "run_strategy L s raw fmt = Inr r \<Longrightarrow> success r \<Longrightarrow> \<exists>kvs. data r = JObj kvs"
proof (cases s)
  case FallbackText
  assume "run_strategy L s raw fmt = Inr r"
  with FallbackText have "r = parse_fallback_text L raw fmt" by simp
  then show ?thesis using parse_fallback_text_facts(2) [of L raw fmt] by auto
qed (auto simp: parse_markdown_json_def
      dest: parse_clean_json_obj try_matches_obj parse_mixed_content_obj)

lemma strategy_loop_returns:
  "FallbackText \<in> set ss \<Longrightarrow> \<exists>kvs. strategy_loop L raw fmt errs best ss = Returned (JObj kvs)"
proof (induction ss arbitrary: errs best)
  case Nil
  then show ?case by simp
next
  case (Cons s ss)
  show ?case
  proof (cases "run_strategy L s raw fmt")
    case (Inl e)
    then have "s \<noteq> FallbackText" by auto
    with Cons.prems have "FallbackText \<in> set ss" by simp
    from Cons.IH [OF this] Inl show ?thesis by simp
  next
    case (Inr r)
    show ?thesis
    proof (cases "success r")
      case True
      with run_strategy_obj [OF Inr] Inr show ?thesis by auto
    next
      case False
      with Inr have "s \<noteq> FallbackText" using parse_fallback_text_facts(1) by auto
      with Cons.prems have "FallbackText \<in> set ss" by simp
      from Cons.IH [OF this] Inr False show ?thesis by simp
    qed
  qed
qed

text \<open>
  C10. The free-text strategy raises nothing and returns a successful result whose data
  is a non-empty mapping, whatever the text and the format; so the loop of
  \<open>parse_response\<close> always ends by returning the data of a strategy (C10 names the
  consequence: the statements after the loop, and with them \<open>_create_text_fallback\<close>, are
  never reached), and for a non-blank text that data is what \<open>parse_response\<close> returns.
\<close>

theorem fallback_text_always_succeeds:
  "run_strategy L FallbackText response expected_format
     = Inr (parse_fallback_text L response expected_format)
   \<and> success (parse_fallback_text L response expected_format)
   \<and> (\<exists>kvs. kvs \<noteq> [] \<and> data (parse_fallback_text L response expected_format) = JObj kvs)
   \<and> (\<exists>d. strategy_loop L response (resolve_format response expected_format) [] None
               parse_strategies = Returned d
          \<and> (\<not> list_all isspace response \<longrightarrow> parse_response L response expected_format = Inr d))"
proof -
  have "FallbackText \<in> set parse_strategies"
    by (simp add: parse_strategies_def)
  from strategy_loop_returns [OF this]
  obtain kvs where
    "strategy_loop L response (resolve_format response expected_format) [] None parse_strategies
       = Returned (JObj kvs)"
    by blast
  moreover from this
  have "\<not> list_all isspace response \<longrightarrow> parse_response L response expected_format = Inr (JObj kvs)"
    by (auto simp: parse_response_def parse_with_def after_loop_def strip_empty_iff)
  ultimately show ?thesis
    using parse_fallback_text_facts(1,2) [of L response expected_format] by auto
qed

theorem fallback_text_always_succeeds_witness:
  "\<not> list_all isspace ''ok''
   \<and> strategy_loop lib_plain ''ok'' (resolve_format ''ok'' ''text'') [] None parse_strategies
       = Returned (JObj [(''zusammenfassung'', JStr ''ok''), (''empfehlungen'', JList [])])
   \<and> parse_response lib_plain ''ok'' ''text''
       = Inr (JObj [(''zusammenfassung'', JStr ''ok''), (''empfehlungen'', JList [])])"
proof -
  have n: "\<not> list_all isspace ''ok''" by code_simp
  have l: "strategy_loop lib_plain ''ok'' (resolve_format ''ok'' ''text'') [] None parse_strategies
       = Returned (JObj [(''zusammenfassung'', JStr ''ok''), (''empfehlungen'', JList [])])"
    by code_simp
  from fallback_text_always_succeeds [of lib_plain "''ok''" "''text''"] n l
  show ?thesis by auto
qed

text \<open>
  C1. A text that is empty or consists of whitespace only makes \<open>parse_response\<close> raise
  the empty-response error; on every other text, with every format tag and whatever the
  library answers, it raises nothing and returns a mapping.
\<close>

theorem parse_response_total:
  "(list_all isspace raw_response \<longrightarrow>
      parse_response L raw_response expected_format = Inl (ValueError ''Leere Response erhalten''))
   \<and> (\<not> list_all isspace raw_response \<longrightarrow>
      (\<exists>kvs. parse_response L raw_response expected_format = Inr (JObj kvs)))"
proof -
  have "FallbackText \<in> set parse_strategies"
    by (simp add: parse_strategies_def)
  from strategy_loop_returns [OF this]
  obtain kvs where
    "strategy_loop L raw_response (resolve_format raw_response expected_format) [] None
       parse_strategies = Returned (JObj kvs)"
    by blast
  then have "\<not> list_all isspace raw_response \<longrightarrow>
      parse_response L raw_response expected_format = Inr (JObj kvs)"
    by (auto simp: parse_response_def parse_with_def after_loop_def strip_empty_iff)
  moreover have "list_all isspace raw_response \<longrightarrow>
      parse_response L raw_response expected_format = Inl (ValueError ''Leere Response erhalten'')"
    by (auto simp: parse_response_def parse_with_def strip_empty_iff)
  ultimately show ?thesis by blast
qed

theorem parse_response_total_witness:
  "list_all isspace ''   ''
   \<and> parse_response lib_plain ''   '' ''auto'' = Inl (ValueError ''Leere Response erhalten'')
   \<and> \<not> list_all isspace ''ok''
   \<and> (\<exists>kvs. parse_response lib_plain ''ok'' ''auto'' = Inr (JObj kvs))"
proof -
  have b: "list_all isspace ''   ''" by code_simp
  have n: "\<not> list_all isspace ''ok''" by code_simp
  from parse_response_total [of "''   ''" lib_plain "''auto''"] b
  have 1: "parse_response lib_plain ''   '' ''auto'' = Inl (ValueError ''Leere Response erhalten'')"
    by blast
  from parse_response_total [of "''ok''" lib_plain "''auto''"] n
  have 2: "\<exists>kvs. parse_response lib_plain ''ok'' ''auto'' = Inr (JObj kvs)"
    by blast
  from b n 1 2 show ?thesis by blast
qed

subsection \<open>The order of the strategies\<close>





subsection \<open>The feasibility probe\<close>

lemma parse_response_nonblank:
  "\<not> list_all isspace raw \<Longrightarrow> \<exists>kvs. parse_response L raw fmt = Inr (JObj kvs)"
proof -
  assume n: "\<not> list_all isspace raw"
  have "FallbackText \<in> set parse_strategies"
    by (simp add: parse_strategies_def)
  from strategy_loop_returns [OF this]
  obtain kvs where
    "strategy_loop L raw (resolve_format raw fmt) [] None parse_strategies = Returned (JObj kvs)"
    by blast
  with n have "parse_response L raw fmt = Inr (JObj kvs)"
    by (auto simp: parse_response_def parse_with_def after_loop_def strip_empty_iff)
  then show ?thesis by blast
qed

lemma parse_response_blank:
  "list_all isspace raw \<Longrightarrow> parse_response L raw fmt = Inl (ValueError ''Leere Response erhalten'')"
  by (auto simp: parse_response_def parse_with_def strip_empty_iff)

lemma wrap_error_message: "\<exists>m. wrap_error e = AnalysisEngineError m \<and> m \<noteq> []"
  by (cases e) simp_all

lemma analyze_use_case_raises:
  assumes "analyze_use_case L templates run template_name = Inl e"
  shows "\<exists>m. e = AnalysisEngineError m \<and> m \<noteq> []"
proof -
  from assms have "\<exists>e'. e = wrap_error e'"
    by (auto simp del: wrap_error.simps simp: analyze_use_case_def
        split: option.splits sum.splits json.splits)
  then obtain e' where "e = wrap_error e'" by blast
  with wrap_error_message [of e'] show ?thesis by simp
qed

lemma analyze_use_case_returns:
  assumes "analyze_use_case L templates run template_name = Inr a"
  shows "run_reply run = Inr (an_raw_response a) \<and> \<not> list_all isspace (an_raw_response a)
         \<and> (\<exists>d c. calculate_confidence_score d (an_raw_response a) template_name = Inr c
                \<and> confidence_score a = c)"
proof -
  from assms obtain fmt raw d c where
    r: "run_reply run = Inr raw" "parse_response L raw fmt = Inr (JObj d)"
       "calculate_confidence_score d raw template_name = Inr c"
       "a = populate_analysis_fields (run_id run) template_name raw d c"
    by (auto simp: analyze_use_case_def split: option.splits sum.splits json.splits)
  from r(2) have "\<not> list_all isspace raw"
    using parse_response_blank [of raw L fmt] by auto
  with r show ?thesis by (auto simp: populate_analysis_fields_def)
qed

text \<open>
  C5. \<open>quick_feasibility_check\<close> returns a record on every input. When the analysis
  raises (and it raises when the model call or any step before the parse raises), the
  record is exactly feasible = false, confidence = 0.0 and a non-empty error message;
  when the analysis succeeds the second parse succeeds too, and feasible is true
  exactly when the parsed recommendation is the text \<open>go\<close>.
\<close>

theorem quick_feasibility_check_never_raises:
  "(analyze_use_case L templates run ''quick_feasibility'' = Inl e \<longrightarrow>
      str_exn e \<noteq> [] \<and> quick_feasibility_check L templates run = error_record (str_exn e))
   \<and> (run_reply run = Inl e' \<longrightarrow>
      (\<exists>msg. msg \<noteq> [] \<and> quick_feasibility_check L templates run = error_record msg))
   \<and> (analyze_use_case L templates run ''quick_feasibility'' = Inr a \<longrightarrow>
      (\<exists>parsed_data.
         parse_response L (an_raw_response a) ''quick_json'' = Inr (JObj parsed_data)
         \<and> feasible (quick_feasibility_check L templates run)
             = (map_of parsed_data ''empfehlung'' = Some (JStr ''go''))
         \<and> fr_error (quick_feasibility_check L templates run) = None
         \<and> fr_confidence (quick_feasibility_check L templates run) = confidence_score a))"
proof (intro conjI impI)
  assume a: "analyze_use_case L templates run ''quick_feasibility'' = Inl e"
  from analyze_use_case_raises [OF a] show "str_exn e \<noteq> []" by auto
  from a show "quick_feasibility_check L templates run = error_record (str_exn e)"
    by (simp add: quick_feasibility_check_def probe_failed_def error_record_def)
next
  assume r: "run_reply run = Inl e'"
  then have "\<exists>e. analyze_use_case L templates run ''quick_feasibility'' = Inl e"
    by (cases "templates ''quick_feasibility''") (simp_all add: analyze_use_case_def)
  then obtain e where a: "analyze_use_case L templates run ''quick_feasibility'' = Inl e"
    by blast
  from analyze_use_case_raises [OF a] have "str_exn e \<noteq> []" by auto
  moreover from a have "quick_feasibility_check L templates run = error_record (str_exn e)"
    by (simp add: quick_feasibility_check_def probe_failed_def error_record_def)
  ultimately show "\<exists>msg. msg \<noteq> [] \<and> quick_feasibility_check L templates run = error_record msg"
    by blast
next
  assume a: "analyze_use_case L templates run ''quick_feasibility'' = Inr a"
  from analyze_use_case_returns [OF a] have "\<not> list_all isspace (an_raw_response a)"
    by simp
  from parse_response_nonblank [OF this] obtain d where
    d: "parse_response L (an_raw_response a) ''quick_json'' = Inr (JObj d)"
    by blast
  have g: "(dict_get d ''empfehlung'' (JStr (u_uml # ''berdenken'')) = JStr ''go'')
             = (map_of d ''empfehlung'' = Some (JStr ''go''))"
    by (simp add: dict_get_def split: option.splits)
  from a d g
  have "feasible (quick_feasibility_check L templates run)
             = (map_of d ''empfehlung'' = Some (JStr ''go''))
         \<and> fr_error (quick_feasibility_check L templates run) = None
         \<and> fr_confidence (quick_feasibility_check L templates run) = confidence_score a"
    by (simp add: quick_feasibility_check_def)
  with d show "\<exists>parsed_data.
         parse_response L (an_raw_response a) ''quick_json'' = Inr (JObj parsed_data)
         \<and> feasible (quick_feasibility_check L templates run)
             = (map_of parsed_data ''empfehlung'' = Some (JStr ''go''))
         \<and> fr_error (quick_feasibility_check L templates run) = None
         \<and> fr_confidence (quick_feasibility_check L templates run) = confidence_score a"
    by blast
qed

theorem quick_feasibility_check_never_raises_witness:
  "analyze_use_case lib_quick default_templates run_timeout ''quick_feasibility''
     = Inl (AnalysisEngineError ''LM Studio Fehler: Timeout nach 120 Sekunden'')
   \<and> quick_feasibility_check lib_quick default_templates run_timeout
     = error_record ''LM Studio Fehler: Timeout nach 120 Sekunden''
   \<and> analyze_use_case lib_quick default_templates run_go ''quick_feasibility''
     = Inr (populate_analysis_fields ''a1'' ''quick_feasibility'' reply_go quick_sample (13 / 20))
   \<and> feasible (quick_feasibility_check lib_quick default_templates run_go)
   \<and> fr_confidence (quick_feasibility_check lib_quick default_templates run_go) = 13 / 20"
proof -
  let ?a = "populate_analysis_fields ''a1'' ''quick_feasibility'' reply_go quick_sample (13 / 20)"
  have f: "analyze_use_case lib_quick default_templates run_timeout ''quick_feasibility''
     = Inl (AnalysisEngineError ''LM Studio Fehler: Timeout nach 120 Sekunden'')"
    by code_simp
  have g: "analyze_use_case lib_quick default_templates run_go ''quick_feasibility'' = Inr ?a"
    by code_simp
  have p: "parse_response lib_quick (an_raw_response ?a) ''quick_json'' = Inr (JObj quick_sample)"
    by code_simp
  have m: "map_of quick_sample ''empfehlung'' = Some (JStr ''go'')"
    by code_simp
  have c: "confidence_score ?a = 13 / 20"
    by (simp add: populate_analysis_fields_def)
  note t1 = quick_feasibility_check_never_raises
    [of lib_quick default_templates run_timeout
        "AnalysisEngineError ''LM Studio Fehler: Timeout nach 120 Sekunden''"]
  note t2 = quick_feasibility_check_never_raises [of lib_quick default_templates run_go _ _ ?a]
  from t1 f have 1: "quick_feasibility_check lib_quick default_templates run_timeout
     = error_record ''LM Studio Fehler: Timeout nach 120 Sekunden''"
    by simp
  from t2 g p m c have 2: "feasible (quick_feasibility_check lib_quick default_templates run_go)
     \<and> fr_confidence (quick_feasibility_check lib_quick default_templates run_go) = 13 / 20"
    by auto
  from f g 1 2 show ?thesis by simp
qed

subsection \<open>The ranking of use cases\<close>

lemma with_keys_returns:
  "with_keys xs = Inr kxs \<Longrightarrow> map snd kxs = xs \<and> (\<forall>(k, x)\<in>set kxs. rank_key x = Inr k)"
  by (induction xs arbitrary: kxs) (auto split: sum.splits)

lemma descending_hd_Max:
  fixes keys :: "('k::linorder) list"
  assumes "sorted (rev keys)" "keys \<noteq> []"
  shows "hd keys = Max (set keys)"
proof -
  from assms(2) obtain k ks where ks: "keys = k # ks" by (cases keys) auto
  with assms(1) have "\<forall>y\<in>set keys. y \<le> k"
    by (auto simp: sorted_append)
  moreover from ks have "k \<in> set keys" by simp
  ultimately have "Max (set keys) = k" by (intro Max_eqI) auto
  with ks show ?thesis by simp
qed

lemma length_probe_all: "length (probe_all L templates runs i ucs) = length ucs"
  by (induction ucs arbitrary: i) simp_all

lemma sorted_reverse_facts:
  fixes kxs :: "('k::linorder \<times> 'a) list"
  shows "\<exists>ys. sorted_reverse kxs = map snd ys \<and> sorted (rev (map fst ys))
           \<and> mset ys = mset kxs"
proof -
  let ?ys = "rev (sort_key fst (rev kxs))"
  have "sorted (rev (map fst ?ys))" by (simp add: rev_map [symmetric])
  moreover have "mset ?ys = mset kxs" by simp
  ultimately show ?thesis unfolding sorted_reverse_def by blast
qed

lemma lower_efforts:
  "lower ''gering'' = ''gering''" "lower ''hoch'' = ''hoch''" "lower ''sehr hoch'' = ''sehr hoch''"
  by code_simp+

lemma compare_use_cases_returns:
  assumes "compare_use_cases L templates runs use_cases = Inr c"
  shows "2 \<le> length use_cases
    \<and> (\<exists>keyed. with_keys (probe_all L templates runs 0 use_cases) = Inr keyed
          \<and> ranked_results c = sorted_reverse keyed
          \<and> recommendation c = (case sorted_reverse keyed of [] \<Rightarrow> None | r # rs \<Rightarrow> Some r))"
  using assms
  by (auto simp: compare_use_cases_def Let_def split: if_splits sum.splits)

lemma effort_to_score_text: "effort_to_score (JStr s) = Inr (effort_table (lower s))"
  by (simp add: effort_to_score_def effort_table_def)

lemma rank_key_text:
  assumes "text_effort x"
  shows "rank_key x = Inr (feasible x, fr_confidence x, effort_table (lower (effort_text x)))"
proof (cases "effort x")
  case None
  then show ?thesis
    by (simp add: rank_key_def effort_text_def effort_to_score_text)
next
  case (Some v)
  with assms obtain s where "v = JStr s"
    by (cases v) (simp_all add: text_effort_def)
  with Some show ?thesis
    by (simp add: rank_key_def effort_text_def effort_to_score_text)
qed

lemma with_keys_total: "list_all text_effort xs \<Longrightarrow> \<exists>kxs. with_keys xs = Inr kxs"
proof (induction xs)
  case Nil
  then show ?case by simp
next
  case (Cons x xs)
  then obtain kxs where "with_keys xs = Inr kxs" by auto
  moreover from Cons.prems have "text_effort x" by simp
  ultimately show ?case by (simp add: rank_key_text)
qed

lemma compare_use_cases_total:
  assumes "2 \<le> length use_cases"
    and "list_all text_effort (probe_all L templates runs 0 use_cases)"
  shows "\<exists>c. compare_use_cases L templates runs use_cases = Inr c"
proof -
  from with_keys_total [OF assms(2)] obtain kxs where
    "with_keys (probe_all L templates runs 0 use_cases) = Inr kxs"
    by blast
  with assms(1) show ?thesis
    by (simp add: compare_use_cases_def Let_def)
qed

text \<open>The code at the reply that gives the effort as a number: the key function of the
  ranking raises, and \<open>compare_use_cases\<close> with it.\<close>

lemma compare_use_cases_number_effort:
  "compare_use_cases lib_replies default_templates number_runs two_use_cases
     = Inl (AttributeError
              ([CHR 0x27] @ ''int'' @ [CHR 0x27] @ '' object has no attribute '' @ [CHR 0x27]
               @ ''lower'' @ [CHR 0x27]))"
  by code_simp

text \<open>
  C6 (as amended). With fewer than two use cases \<open>compare_use_cases\<close> raises the comparison
  error and returns nothing. With two or more, whose probe results carry a text as
  effort or none, it returns a ranking; a returned ranking holds exactly the probe
  results, its keys are in descending order, and the recommendation is its first entry,
  whose key is the maximum. The key is the tuple of the feasible flag, the confidence and
  the score that the table gives for the lower-cased effort text (\<open>hoch\<close> when the record
  has none); the table gives 4, 3, 2, 1 for gering, mittel, hoch, sehr hoch and 2.5 for
  every other text.
\<close>

theorem compare_use_cases_ranking:
  "(length use_cases < 2 \<longrightarrow>
      compare_use_cases L templates runs use_cases
        = Inl (AnalysisEngineError
                 (''Mindestens 2 Use Cases f'' @ u_uml # ''r Vergleich erforderlich'')))
   \<and> (2 \<le> length use_cases
        \<and> list_all text_effort (probe_all L templates runs 0 use_cases) \<longrightarrow>
      (\<exists>c'. compare_use_cases L templates runs use_cases = Inr c'))
   \<and> (compare_use_cases L templates runs use_cases = Inr c \<longrightarrow>
      2 \<le> length use_cases
      \<and> (\<exists>keys. map rank_key (ranked_results c) = map Inr keys
            \<and> sorted (rev keys)
            \<and> mset (ranked_results c) = mset (probe_all L templates runs 0 use_cases)
            \<and> (\<exists>top others. ranked_results c = top # others \<and> recommendation c = Some top
                  \<and> rank_key top = Inr (Max (set keys)))))
   \<and> (text_effort x \<longrightarrow>
      rank_key x = Inr (feasible x, fr_confidence x, effort_table (lower (effort_text x))))
   \<and> effort_table ''gering'' = 4
   \<and> effort_table ''mittel'' = 3
   \<and> effort_table ''hoch'' = 2
   \<and> effort_table ''sehr hoch'' = 1
   \<and> (s \<notin> {''gering'', ''mittel'', ''hoch'', ''sehr hoch''} \<longrightarrow> effort_table s = 25 / 10)"
proof -
  have few: "length use_cases < 2 \<longrightarrow>
      compare_use_cases L templates runs use_cases
        = Inl (AnalysisEngineError
                 (''Mindestens 2 Use Cases f'' @ u_uml # ''r Vergleich erforderlich''))"
    by (simp add: compare_use_cases_def)
  have total: "2 \<le> length use_cases
        \<and> list_all text_effort (probe_all L templates runs 0 use_cases) \<longrightarrow>
      (\<exists>c'. compare_use_cases L templates runs use_cases = Inr c')"
    using compare_use_cases_total [of use_cases L templates runs] by blast
  have ranking: "2 \<le> length use_cases
      \<and> (\<exists>keys. map rank_key (ranked_results c) = map Inr keys
            \<and> sorted (rev keys)
            \<and> mset (ranked_results c) = mset (probe_all L templates runs 0 use_cases)
            \<and> (\<exists>top others. ranked_results c = top # others \<and> recommendation c = Some top
                  \<and> rank_key top = Inr (Max (set keys))))"
    if ret: "compare_use_cases L templates runs use_cases = Inr c"
  proof -
    let ?results = "probe_all L templates runs 0 use_cases"
    from compare_use_cases_returns [OF ret] obtain keyed where
      len: "2 \<le> length use_cases"
      and keyed: "with_keys ?results = Inr keyed"
      and ranked: "ranked_results c = sorted_reverse keyed"
      and rec: "recommendation c = (case sorted_reverse keyed of [] \<Rightarrow> None | r # rs \<Rightarrow> Some r)"
      by blast
    from with_keys_returns [OF keyed]
    have snd_keyed: "map snd keyed = ?results"
      and key_of: "\<forall>(k, x)\<in>set keyed. rank_key x = Inr k"
      by simp_all
    from sorted_reverse_facts [of keyed] obtain ys where
      ys: "sorted_reverse keyed = map snd ys" "sorted (rev (map fst ys))" "mset ys = mset keyed"
      by blast
    from ys(3) have set_ys: "set ys = set keyed" by (rule mset_eq_setD)
    with key_of have "\<forall>(k, x)\<in>set ys. rank_key x = Inr k" by simp
    then have keys: "map rank_key (map snd ys) = map Inr (map fst ys)"
      by (induction ys) auto
    from ys(3) have "mset (map snd ys) = mset (map snd keyed)"
      by (metis mset_map)
    with snd_keyed have perm: "mset (map snd ys) = mset ?results" by simp
    from ys(3) have "length ys = length keyed" by (rule mset_eq_length)
    also from snd_keyed have "length keyed = length ?results"
      by (metis length_map)
    finally have "length ys = length use_cases" by (simp add: length_probe_all)
    with len obtain y ys' where y: "ys = y # ys'" by (cases ys) auto
    then have "map fst ys \<noteq> []" by simp
    from descending_hd_Max [OF ys(2) this] y
    have mx: "fst y = Max (set (map fst ys))" by simp
    from y set_ys key_of have "rank_key (snd y) = Inr (fst y)"
      by (cases y) auto
    with mx have top: "rank_key (snd y) = Inr (Max (set (map fst ys)))" by simp
    from y ys(1) rec ranked
    have "ranked_results c = snd y # map snd ys'" "recommendation c = Some (snd y)"
      by simp_all
    with top keys ys(1,2) perm ranked
    have "\<exists>keys. map rank_key (ranked_results c) = map Inr keys
            \<and> sorted (rev keys)
            \<and> mset (ranked_results c) = mset (probe_all L templates runs 0 use_cases)
            \<and> (\<exists>top others. ranked_results c = top # others \<and> recommendation c = Some top
                  \<and> rank_key top = Inr (Max (set keys)))"
      by metis
    with len show ?thesis by blast
  qed
  have key: "text_effort x \<longrightarrow>
      rank_key x = Inr (feasible x, fr_confidence x, effort_table (lower (effort_text x)))"
    using rank_key_text [of x] by blast
  have table: "effort_table ''gering'' = 4" "effort_table ''mittel'' = 3"
    "effort_table ''hoch'' = 2" "effort_table ''sehr hoch'' = 1"
    by (simp_all add: effort_table_def)
  have other: "s \<notin> {''gering'', ''mittel'', ''hoch'', ''sehr hoch''} \<longrightarrow> effort_table s = 25 / 10"
    by (simp add: effort_table_def)
  from few total ranking key table other show ?thesis by blast
qed

theorem compare_use_cases_ranking_witness:
  "length [quoting_use_case] < 2
   \<and> compare_use_cases lib_replies default_templates three_runs [quoting_use_case]
       = Inl (AnalysisEngineError
                (''Mindestens 2 Use Cases f'' @ u_uml # ''r Vergleich erforderlich''))
   \<and> 2 \<le> length three_use_cases
   \<and> list_all text_effort (probe_all lib_replies default_templates three_runs 0 three_use_cases)
   \<and> (\<exists>c. compare_use_cases lib_replies default_templates three_runs three_use_cases = Inr c
         \<and> map use_case_index (ranked_results c) = [Some 1, Some 0, Some 2]
         \<and> (\<exists>keys. map rank_key (ranked_results c) = map Inr keys \<and> sorted (rev keys)))
   \<and> text_effort (error_record ''Analyse fehlgeschlagen'')
   \<and> rank_key (error_record ''Analyse fehlgeschlagen'') = Inr (False, 0, 2)
   \<and> ''riesig'' \<notin> {''gering'', ''mittel'', ''hoch'', ''sehr hoch''}
   \<and> effort_table ''riesig'' = 25 / 10"
proof -
  have l1: "length [quoting_use_case] < 2" by simp
  have l2: "2 \<le> length three_use_cases" by (simp add: three_use_cases_def)
  have te: "list_all text_effort
              (probe_all lib_replies default_templates three_runs 0 three_use_cases)"
    by code_simp
  have e: "(case compare_use_cases lib_replies default_templates three_runs three_use_cases of
              Inl e \<Rightarrow> [] | Inr c \<Rightarrow> map use_case_index (ranked_results c))
           = [Some 1, Some 0, Some 2]"
    by code_simp
  have x: "text_effort (error_record ''Analyse fehlgeschlagen'')"
    by (simp add: text_effort_def error_record_def)
  have xk: "(feasible (error_record ''Analyse fehlgeschlagen''),
             fr_confidence (error_record ''Analyse fehlgeschlagen''),
             effort_table (lower (effort_text (error_record ''Analyse fehlgeschlagen''))))
            = (False, 0, 2)"
    by (simp add: error_record_def effort_text_def lower_efforts effort_table_def)
  have r: "''riesig'' \<notin> {''gering'', ''mittel'', ''hoch'', ''sehr hoch''}"
    by simp
  note t1 = compare_use_cases_ranking
    [of "[quoting_use_case]" lib_replies default_templates three_runs _
        "error_record ''Analyse fehlgeschlagen''" "''riesig''"]
  from t1 l1
  have 1: "compare_use_cases lib_replies default_templates three_runs [quoting_use_case]
       = Inl (AnalysisEngineError
                (''Mindestens 2 Use Cases f'' @ u_uml # ''r Vergleich erforderlich''))"
    by blast
  note key = t1 [THEN conjunct2, THEN conjunct2, THEN conjunct2, THEN conjunct1, THEN mp, OF x]
  from key have 2: "rank_key (error_record ''Analyse fehlgeschlagen'') = Inr (False, 0, 2)"
    by (simp only: xk)
  note 3 = t1 [THEN conjunct2, THEN conjunct2, THEN conjunct2, THEN conjunct2, THEN conjunct2,
      THEN conjunct2, THEN conjunct2, THEN conjunct2, THEN mp, OF r]
  from compare_use_cases_ranking [of three_use_cases lib_replies default_templates three_runs]
    l2 te
  obtain c where
    c: "compare_use_cases lib_replies default_templates three_runs three_use_cases = Inr c"
    by blast
  with e have i: "map use_case_index (ranked_results c) = [Some 1, Some 0, Some 2]"
    by simp
  from compare_use_cases_ranking [of three_use_cases lib_replies default_templates three_runs c] c
  have k: "\<exists>keys. map rank_key (ranked_results c) = map Inr keys \<and> sorted (rev keys)"
    by blast
  from c i k
  have 4: "\<exists>c. compare_use_cases lib_replies default_templates three_runs three_use_cases = Inr c
         \<and> map use_case_index (ranked_results c) = [Some 1, Some 0, Some 2]
         \<and> (\<exists>keys. map rank_key (ranked_results c) = map Inr keys \<and> sorted (rev keys))"
    by (intro exI [of _ c] conjI)
  show ?thesis
    using l1 1 l2 te 4 x 2 r 3 by (intro conjI)
qed

text \<open>
  The claim as worded fails on an effort in upper case. \<open>GERING\<close> is not among the four
  texts of the table, so the worded score is 2.5; the code lower-cases the text first
  and scores 4. With a second use case of medium effort and the same confidence the
  code ranks the upper-case one first, and the worded keys of the returned ranking are
  not in descending order.
\<close>

theorem compare_use_cases_ranking_counterexample:
  "''GERING'' \<notin> {''gering'', ''mittel'', ''hoch'', ''sehr hoch''}
   \<and> effort_table ''GERING'' = 25 / 10
   \<and> effort_to_score (JStr ''GERING'') = Inr 4
   \<and> (\<exists>c. compare_use_cases lib_replies default_templates upper_runs two_use_cases = Inr c
         \<and> map use_case_index (ranked_results c) = [Some 1, Some 0]
         \<and> map claimed_key (ranked_results c) = [(True, 13 / 20, 25 / 10), (True, 13 / 20, 3)]
         \<and> \<not> sorted (rev (map claimed_key (ranked_results c))))"
proof -
  have 1: "''GERING'' \<notin> {''gering'', ''mittel'', ''hoch'', ''sehr hoch''}" by simp
  have 2: "effort_table ''GERING'' = 25 / 10" by (simp add: effort_table_def)
  have 3: "effort_to_score (JStr ''GERING'') = Inr 4" by code_simp
  have i: "(case compare_use_cases lib_replies default_templates upper_runs two_use_cases of
              Inl e \<Rightarrow> [] | Inr c \<Rightarrow> map use_case_index (ranked_results c))
           = [Some 1, Some 0]"
    by code_simp
  have k: "(case compare_use_cases lib_replies default_templates upper_runs two_use_cases of
              Inl e \<Rightarrow> [] | Inr c \<Rightarrow> map claimed_key (ranked_results c))
           = [(True, 13 / 20, 25 / 10), (True, 13 / 20, 3)]"
    by code_simp
  from i obtain c where
    c: "compare_use_cases lib_replies default_templates upper_runs two_use_cases = Inr c"
    by (cases "compare_use_cases lib_replies default_templates upper_runs two_use_cases") auto
  with i k have ci: "map use_case_index (ranked_results c) = [Some 1, Some 0]"
    and ck: "map claimed_key (ranked_results c) = [(True, 13 / 20, 25 / 10), (True, 13 / 20, 3)]"
    by simp_all
  have "\<not> sorted (rev [(True, 13 / 20 :: real, 25 / 10 :: real), (True, 13 / 20, 3)])"
    by (simp add: less_eq_prod_def)
  with ck have ns: "\<not> sorted (rev (map claimed_key (ranked_results c)))" by simp
  from c ci ck ns
  have 4: "\<exists>c. compare_use_cases lib_replies default_templates upper_runs two_use_cases = Inr c
         \<and> map use_case_index (ranked_results c) = [Some 1, Some 0]
         \<and> map claimed_key (ranked_results c) = [(True, 13 / 20, 25 / 10), (True, 13 / 20, 3)]
         \<and> \<not> sorted (rev (map claimed_key (ranked_results c)))"
    by (intro exI [of _ c] conjI)
  show ?thesis using 1 2 3 4 by (intro conjI)
qed


subsection \<open>Every confidence lies between 0 and 1\<close>

lemma step_quality_nonneg: "0 \<le> q \<Longrightarrow> 0 \<le> step_quality q v"
  by (cases v) simp_all

lemma foldl_step_quality_nonneg: "0 \<le> q \<Longrightarrow> 0 \<le> foldl step_quality q steps"
  by (induction steps arbitrary: q) (simp_all add: step_quality_nonneg)

lemma validate_analysis_structure_range: "unit_range (validate_analysis_structure d)"
proof -
  have q1: "0 \<le> (case dict_get d ''handlungsschritte'' (JList []) of
                  JList steps \<Rightarrow> foldl step_quality 1 steps | _ \<Rightarrow> 1)"
    by (simp add: foldl_step_quality_nonneg split: json.splits)
  then show ?thesis
    unfolding validate_analysis_structure_def Let_def unit_range_def
    by (auto split: json.splits)
qed

lemma validate_feasibility_structure_range:
  "validate_feasibility_structure d = Inr q \<Longrightarrow> unit_range q"
  by (auto simp: validate_feasibility_structure_def Let_def unit_range_def
      split: sum.splits if_splits)

lemma ratio_range:
  "fs \<noteq> [] \<Longrightarrow> unit_range (real (length (filter P fs)) / real (length fs))"
  by (simp add: unit_range_def)

lemma unit_range_mult: "unit_range a \<Longrightarrow> unit_range b \<Longrightarrow> unit_range (a * b)"
  by (simp add: unit_range_def mult_le_one)

lemma validation_result_range:
  "unit_range c \<Longrightarrow> unit_range (v_confidence (validation_result c errs warns))"
  by (simp add: validation_result_def)

lemma validate_structure_range:
  assumes "validate_structure d fmt = Inr v"
  shows "unit_range (v_confidence v)"
proof (cases d)
  case (JObj kvs)
  show ?thesis
  proof (cases "expected_fields fmt = []")
    case True
    with JObj assms show ?thesis
      by (auto simp: validation_result_def unit_range_def)
  next
    case False
    let ?c = "real (length (filter (has_key kvs) (expected_fields fmt)))
                / real (length (expected_fields fmt))"
    from False have c: "unit_range ?c" by (rule ratio_range)
    consider (a) "fmt = ''structured_json''" | (q) "fmt = ''quick_json''"
      | (o) "fmt \<noteq> ''structured_json''" "fmt \<noteq> ''quick_json''"
      by blast
    then show ?thesis
    proof cases
      case a
      with JObj False assms
      have "v_confidence v = ?c * validate_analysis_structure kvs"
        by (auto simp: Let_def validation_result_def)
      with unit_range_mult [OF c validate_analysis_structure_range [of kvs]] show ?thesis
        by (simp only:)
    next
      case q
      with JObj False assms obtain f where
        f: "validate_feasibility_structure kvs = Inr f" "v_confidence v = ?c * f"
        by (auto simp: Let_def validation_result_def split: sum.splits)
      with unit_range_mult [OF c validate_feasibility_structure_range [OF f(1)]] show ?thesis
        by (simp only:)
    next
      case o
      with JObj False assms have "v_confidence v = ?c"
        by (auto simp: Let_def validation_result_def)
      with c show ?thesis by simp
    qed
  qed
qed (use assms in \<open>auto simp: unit_range_def\<close>)

lemma parse_clean_json_range:
  "parse_clean_json L raw fmt = Inr r \<Longrightarrow> unit_range (confidence r)"
  by (auto simp: parse_clean_json_def unit_range_def[of 0]
      split: sum.splits exn.splits dest: validate_structure_range)

lemma try_matches_range:
  "try_matches L fmt ms = Inr r \<Longrightarrow> unit_range (confidence r)"
  by (induction ms)
     (auto simp: unit_range_def[of 0] split: sum.splits exn.splits if_splits
        dest: validate_structure_range)

lemma best_candidate_range:
  "best_candidate L fmt best cs = Inr (Some r)
    \<Longrightarrow> (\<forall>b. best = Some b \<longrightarrow> unit_range (confidence b))
    \<Longrightarrow> unit_range (confidence r)"
proof (induction cs arbitrary: best)
  case Nil
  then show ?case by simp
next
  case (Cons c cs)
  show ?case
  proof (cases "json_loads L (clean_json_string L c)")
    case (Inl e)
    with Cons.prems(1) have "best_candidate L fmt best cs = Inr (Some r)"
      by (cases e) simp_all
    from Cons.IH [OF this Cons.prems(2)] show ?thesis .
  next
    case (Inr d)
    show ?thesis
    proof (cases "validate_structure d fmt")
      case (Inl e)
      with Inr Cons.prems(1) show ?thesis by simp
    next
      case v: (Inr v)
      let ?new = "validated_result v d ''mixed_content''"
      have new: "\<forall>b. Some ?new = Some b \<longrightarrow> unit_range (confidence b)"
        using validate_structure_range [OF v] by simp
      from Inr v Cons.prems(1)
      consider "best_candidate L fmt (Some ?new) cs = Inr (Some r)"
        | "best_candidate L fmt best cs = Inr (Some r)"
        by (simp split: if_splits)
      then show ?thesis
      proof cases
        case 1
        from Cons.IH [OF 1 new] show ?thesis .
      next
        case 2
        from Cons.IH [OF 2 Cons.prems(2)] show ?thesis .
      qed
    qed
  qed
qed

lemma map_sections_confidence:
  "c \<le> snd (map_sections fmt (ed, c) secs)"
proof (induction secs arbitrary: ed c)
  case Nil
  then show ?case by simp
next
  case (Cons sec secs)
  obtain t body where sec: "sec = (t, body)" by (cases sec)
  have "c + 1 / 10 \<le> snd (map_sections fmt (ed', c + 1 / 10) secs)" for ed'
    by (rule Cons.IH)
  then have "c \<le> snd (map_sections fmt (ed', c + 1 / 10) secs)" for ed'
    by (smt (verit) divide_nonneg_nonneg)
  with Cons.IH [of c ed] sec show ?case
    by (auto split: option.splits)
qed

lemma extract_structured_text_range:
  "4 / 10 \<le> confidence (extract_structured_text L raw fmt)
   \<and> confidence (extract_structured_text L raw fmt) \<le> 1"
proof -
  obtain ed c where m: "map_sections fmt ([], 4 / 10) (find_text_sections L raw) = (ed, c)"
    by (cases "map_sections fmt ([], 4 / 10) (find_text_sections L raw)")
  with map_sections_confidence [of "4 / 10" fmt "[]" "find_text_sections L raw"]
  have "4 / 10 \<le> c" by simp
  with m show ?thesis
    by (auto simp: extract_structured_text_def Let_def min_def)
qed

lemma parse_mixed_content_range:
  assumes "parse_mixed_content L raw fmt = Inr r"
  shows "unit_range (confidence r)"
proof (cases "best_candidate L fmt None (scan_braces raw 0 None 0 [] raw)")
  case (Inl e)
  with assms show ?thesis by (simp add: parse_mixed_content_def)
next
  case (Inr best)
  show ?thesis
  proof (cases best)
    case None
    with Inr assms have "r = extract_structured_text L raw fmt"
      by (simp add: parse_mixed_content_def)
    with extract_structured_text_range [of L raw fmt] show ?thesis
      by (simp add: unit_range_def)
  next
    case (Some b)
    with Inr assms
    have "best_candidate L fmt None (scan_braces raw 0 None 0 [] raw) = Inr (Some r)"
      by (simp add: parse_mixed_content_def)
    from best_candidate_range [OF this] show ?thesis by simp
  qed
qed

lemma run_strategy_range:
  assumes "run_strategy L s raw fmt = Inr r"
  shows "unit_range (confidence r)"
proof (cases s)
  case CleanJson
  with assms show ?thesis by (auto dest: parse_clean_json_range)
next
  case MarkdownJson
  with assms show ?thesis by (auto simp: parse_markdown_json_def dest: try_matches_range)
next
  case MixedContent
  with assms show ?thesis by (auto dest: parse_mixed_content_range)
next
  case FallbackText
  with assms have "r = parse_fallback_text L raw fmt" by simp
  then show ?thesis
    by (simp add: parse_fallback_text_facts(3) unit_range_def)
qed

lemma score_ranges:
  "unit_range (length_score n)" "unit_range (detail_score m)"
  by (simp_all add: length_score_def detail_score_def unit_range_def)

lemma mean_range:
  fixes x y z w :: real
  assumes "0 \<le> x" "x \<le> 1" "0 \<le> y" "y \<le> 1" "0 \<le> z" "z \<le> 1" "0 \<le> w" "w \<le> 1"
  shows "unit_range ((x + y + z) / 3)" "unit_range ((w + (x + y + z)) / 4)"
  using assms unfolding unit_range_def by auto

lemma calculate_confidence_score_range:
  assumes "calculate_confidence_score d raw t = Inr c"
  shows "unit_range c"
proof -
  from assms obtain n where
    n: "count_recommendations d
          [''handlungsschritte'', ''technische_loesungen'', ''naechste_schritte''] 0 = Inr n"
    by (auto simp: calculate_confidence_score_def Let_def split: sum.splits)
  define l where "l = length_score (length raw)"
  define s :: real where "s = (if d \<noteq> [] then 1 else 3 / 10)"
  define dt where "dt = detail_score n"
  define r where
    "r = real (length (filter (has_key d) (score_fields t))) / real (length (score_fields t))"
  have l: "0 \<le> l" "l \<le> 1" and dd: "0 \<le> dt" "dt \<le> 1"
    using score_ranges(1) [of "length raw"] score_ranges(2) [of n]
    by (simp_all add: unit_range_def l_def dt_def)
  have st: "0 \<le> s" "s \<le> 1" by (simp_all add: s_def)
  show ?thesis
  proof (cases "score_fields t = []")
    case True
    with assms n have "c = (l + s + dt) / 3"
      by (simp add: calculate_confidence_score_def Let_def l_def s_def dt_def)
    with mean_range(1) [OF l st dd l] show ?thesis by (simp only:)
  next
    case False
    from ratio_range [OF False, of "has_key d"] have r: "0 \<le> r" "r \<le> 1"
      by (simp_all add: unit_range_def r_def)
    from False assms n have "c = (r + (l + s + dt)) / 4"
      by (simp add: calculate_confidence_score_def Let_def l_def s_def dt_def r_def)
    with mean_range(2) [OF l st dd r] show ?thesis by (simp only:)
  qed
qed

lemma analyze_use_case_range:
  assumes "analyze_use_case L templates run t = Inr a"
  shows "unit_range (confidence_score a)"
proof -
  from analyze_use_case_returns [OF assms] obtain d c where
    "calculate_confidence_score d (an_raw_response a) t = Inr c" "confidence_score a = c"
    by blast
  with calculate_confidence_score_range show ?thesis by simp
qed

lemma quick_feasibility_check_range:
  "unit_range (fr_confidence (quick_feasibility_check L templates run))"
proof (cases "analyze_use_case L templates run ''quick_feasibility''")
  case (Inl e)
  then show ?thesis
    by (simp add: quick_feasibility_check_def probe_failed_def unit_range_def)
next
  case (Inr a)
  from analyze_use_case_returns [OF Inr] have "\<not> list_all isspace (an_raw_response a)"
    by simp
  from parse_response_nonblank [OF this] obtain kvs where
    "parse_response L (an_raw_response a) ''quick_json'' = Inr (JObj kvs)"
    by blast
  with Inr have "fr_confidence (quick_feasibility_check L templates run) = confidence_score a"
    by (simp add: quick_feasibility_check_def)
  with analyze_use_case_range [OF Inr] show ?thesis by simp
qed

lemma fallback_mapping_score:
  "\<exists>kvs c. create_text_fallback raw errs = JObj kvs
     \<and> calculate_confidence_score kvs raw t = Inr c"
proof -
  let ?kvs = "[(''zusammenfassung'',
              JStr (''Parsing fehlgeschlagen - Originaltext verf'' @ u_uml # ''gbar'')),
           (''raw_response'', JStr raw),
           (''parsing_errors'', json_strings errs),
           (''naechste_schritte'',
              json_strings [''Response manuell pr'' @ u_uml # ''fen'',
                            ''Prompt-Template '' @ u_uml # ''berarbeiten'',
                            ''KI-Modell-Parameter anpassen''])]"
  have "count_recommendations ?kvs
          [''handlungsschritte'', ''technische_loesungen'', ''naechste_schritte''] 0 = Inr 3"
    by (simp add: json_strings_def)
  then have "\<exists>c. calculate_confidence_score ?kvs raw t = Inr c"
    by (simp add: calculate_confidence_score_def Let_def)
  then show ?thesis
    unfolding create_text_fallback_def by blast
qed

text \<open>
  C4. Every confidence that the system produces lies in the closed interval from 0 to 1:
  the confidence of the result of each of the four strategies (and of the section-based
  extraction and of the structural validation behind them), the overall score of the
  orchestrator, also on the mapping of the terminal fallback, the score stored in an
  analysis, and the confidence of the feasibility record, which is 0 when the probe
  failed.
\<close>

theorem confidence_in_unit_interval:
  "(run_strategy L s raw fmt = Inr r \<longrightarrow> 0 \<le> confidence r \<and> confidence r \<le> 1)
   \<and> 0 \<le> confidence (extract_structured_text L raw fmt)
   \<and> confidence (extract_structured_text L raw fmt) \<le> 1
   \<and> (validate_structure d fmt = Inr v \<longrightarrow> 0 \<le> v_confidence v \<and> v_confidence v \<le> 1)
   \<and> (calculate_confidence_score parsed_data raw template_name = Inr c \<longrightarrow> 0 \<le> c \<and> c \<le> 1)
   \<and> (\<exists>kvs c'. create_text_fallback raw errs = JObj kvs
          \<and> calculate_confidence_score kvs raw template_name = Inr c' \<and> 0 \<le> c' \<and> c' \<le> 1)
   \<and> (analyze_use_case L templates run template_name = Inr a \<longrightarrow>
          0 \<le> confidence_score a \<and> confidence_score a \<le> 1)
   \<and> 0 \<le> fr_confidence (quick_feasibility_check L templates run)
   \<and> fr_confidence (quick_feasibility_check L templates run) \<le> 1"
proof -
  have 1: "run_strategy L s raw fmt = Inr r \<longrightarrow> 0 \<le> confidence r \<and> confidence r \<le> 1"
    using run_strategy_range [of L s raw fmt r] by (simp add: unit_range_def)
  have 2: "0 \<le> confidence (extract_structured_text L raw fmt)
      \<and> confidence (extract_structured_text L raw fmt) \<le> 1"
    using extract_structured_text_range [of L raw fmt] by simp
  have 3: "validate_structure d fmt = Inr v \<longrightarrow> 0 \<le> v_confidence v \<and> v_confidence v \<le> 1"
    using validate_structure_range [of d fmt v] by (simp add: unit_range_def)
  have 4: "calculate_confidence_score parsed_data raw template_name = Inr c \<longrightarrow> 0 \<le> c \<and> c \<le> 1"
    using calculate_confidence_score_range [of parsed_data raw template_name c]
    by (simp add: unit_range_def)
  from fallback_mapping_score [of raw errs template_name] obtain kvs c' where
    k: "create_text_fallback raw errs = JObj kvs"
       "calculate_confidence_score kvs raw template_name = Inr c'"
    by blast
  from calculate_confidence_score_range [OF k(2)] k
  have 5: "\<exists>kvs c'. create_text_fallback raw errs = JObj kvs
          \<and> calculate_confidence_score kvs raw template_name = Inr c' \<and> 0 \<le> c' \<and> c' \<le> 1"
    unfolding unit_range_def by blast
  have 6: "analyze_use_case L templates run template_name = Inr a \<longrightarrow>
          0 \<le> confidence_score a \<and> confidence_score a \<le> 1"
    using analyze_use_case_range [of L templates run template_name a]
    by (simp add: unit_range_def)
  have 7: "0 \<le> fr_confidence (quick_feasibility_check L templates run)
      \<and> fr_confidence (quick_feasibility_check L templates run) \<le> 1"
    using quick_feasibility_check_range [of L templates run] by (simp add: unit_range_def)
  from 1 2 3 4 5 6 7 show ?thesis by (intro conjI) simp_all
qed

theorem confidence_in_unit_interval_witness:
  "run_strategy lib_quick CleanJson reply_go ''quick_json''
     = Inr \<lparr>success = True, data = JObj quick_sample, format_detected = ''clean_json'',
            confidence = 1, errors = [], warnings = []\<rparr>
   \<and> validate_structure (JObj quick_sample) ''quick_json''
     = Inr \<lparr>valid = True, v_confidence = 1, v_errors = [], v_warnings = []\<rparr>
   \<and> calculate_confidence_score quick_sample reply_go ''quick_feasibility'' = Inr (13 / 20)
   \<and> analyze_use_case lib_quick default_templates run_go ''quick_feasibility''
     = Inr (populate_analysis_fields ''a1'' ''quick_feasibility'' reply_go quick_sample (13 / 20))
   \<and> (0::real) \<le> 13 / 20 \<and> (13 / 20 :: real) \<le> 1
   \<and> fr_confidence (quick_feasibility_check lib_quick default_templates run_go) \<le> 1"
proof -
  let ?r = "\<lparr>success = True, data = JObj quick_sample, format_detected = ''clean_json'',
            confidence = 1, errors = [], warnings = []\<rparr>"
  let ?v = "\<lparr>valid = True, v_confidence = 1, v_errors = [], v_warnings = []\<rparr>"
  let ?a = "populate_analysis_fields ''a1'' ''quick_feasibility'' reply_go quick_sample (13 / 20)"
  have r: "run_strategy lib_quick CleanJson reply_go ''quick_json'' = Inr ?r"
    by code_simp
  have v: "validate_structure (JObj quick_sample) ''quick_json'' = Inr ?v"
    by code_simp
  have c: "calculate_confidence_score quick_sample reply_go ''quick_feasibility'' = Inr (13 / 20)"
    by code_simp
  have a: "analyze_use_case lib_quick default_templates run_go ''quick_feasibility'' = Inr ?a"
    by code_simp
  note t = confidence_in_unit_interval
    [of lib_quick CleanJson reply_go "''quick_json''" ?r "JObj quick_sample" ?v
        quick_sample "''quick_feasibility''" "13 / 20" _ default_templates run_go ?a]
  from t c have "(0::real) \<le> 13 / 20 \<and> (13 / 20 :: real) \<le> 1" by blast
  moreover from t
  have "fr_confidence (quick_feasibility_check lib_quick default_templates run_go) \<le> 1"
    by blast
  ultimately show ?thesis using r v c a by (intro conjI) simp_all
qed

subsection \<open>The confidence of the text heuristics\<close>

lemma map_sections_exact:
  "snd (map_sections fmt (ed, c) secs) = c + real (length (filter (is_mapped fmt) secs)) / 10"
proof (induction secs arbitrary: ed c)
  case Nil
  then show ?case by simp
next
  case (Cons sec secs)
  obtain t body where sec: "sec = (t, body)" by (cases sec)
  show ?case
  proof (cases "is_mapped fmt sec")
    case True
    with sec obtain f where f: "map_section_to_field t fmt = Some f" "f \<noteq> []"
      by (auto simp: is_mapped_def split: option.splits)
    with sec True Cons.IH [of "dict_set ed f (JStr (strip body))" "c + 1 / 10"]
    show ?thesis by (simp add: field_simps)
  next
    case False
    with sec Cons.IH [of ed c] show ?thesis
      by (auto simp: is_mapped_def split: option.splits)
  qed
qed

lemma extract_structured_text_lower_bound:
  "min 1 (4 / 10 + real (length (mapped_sections L raw fmt)) / 10)
     \<le> confidence (extract_structured_text L raw fmt)"
proof -
  obtain ed c where m: "map_sections fmt ([], 4 / 10) (find_text_sections L raw) = (ed, c)"
    by (cases "map_sections fmt ([], 4 / 10) (find_text_sections L raw)")
  with map_sections_exact [of fmt "[]" "4 / 10" "find_text_sections L raw"]
  have "c = 4 / 10 + real (length (mapped_sections L raw fmt)) / 10"
    by (simp add: mapped_sections_def)
  with m show ?thesis
    by (auto simp: extract_structured_text_def Let_def min_def)
qed

text \<open>
  C8 (as amended). The free-text strategy, the fourth of the chain, always reports the
  confidence 0.3, whatever it extracted. The section-based extraction, which the third
  strategy falls back to, is not capped at 0.3 to 0.4: its confidence is at least 0.4
  plus 0.1 for every section mapped to a field, capped at 1.
\<close>

theorem text_heuristics_confidence:
  "confidence (parse_fallback_text L response expected_format) = 3 / 10
   \<and> min 1 (4 / 10 + real (length (mapped_sections L response expected_format)) / 10)
       \<le> confidence (extract_structured_text L response expected_format)
   \<and> confidence (extract_structured_text L response expected_format) \<le> 1"
  using parse_fallback_text_facts(3) [of L response expected_format]
    extract_structured_text_lower_bound [of L response expected_format]
    extract_structured_text_range [of L response expected_format]
  by simp

text \<open>
  The claim as worded fails on a reply with two recognised headings: the section-based
  extraction handles it, its result is what \<open>parse_response\<close> returns, and its confidence
  is 0.8.
\<close>

theorem text_heuristics_confidence_counterexample:
  "run_strategy lib_sections MixedContent sections_text ''structured_json''
     = Inr (extract_structured_text lib_sections sections_text ''structured_json'')
   \<and> parse_response lib_sections sections_text ''structured_json''
     = Inr (data (extract_structured_text lib_sections sections_text ''structured_json''))
   \<and> length (mapped_sections lib_sections sections_text ''structured_json'') = 2
   \<and> confidence (extract_structured_text lib_sections sections_text ''structured_json'') = 8 / 10
   \<and> \<not> confidence (extract_structured_text lib_sections sections_text ''structured_json'')
         \<le> 4 / 10"
proof -
  have 1: "run_strategy lib_sections MixedContent sections_text ''structured_json''
     = Inr (extract_structured_text lib_sections sections_text ''structured_json'')"
    by code_simp
  have 2: "parse_response lib_sections sections_text ''structured_json''
     = Inr (data (extract_structured_text lib_sections sections_text ''structured_json''))"
    by code_simp
  have 3: "length (mapped_sections lib_sections sections_text ''structured_json'') = 2"
    by code_simp
  have 4: "confidence (extract_structured_text lib_sections sections_text ''structured_json'')
     = 8 / 10"
    by code_simp
  from 1 2 3 4 show ?thesis by simp
qed

subsection \<open>The retry loop of the client\<close>

declare retry_loop.simps [simp del]

lemma backoff_inner:
  "attempt + 1 < max_retries cfg \<Longrightarrow> backoff cfg attempt slept = slept @ [2 ^ attempt]"
  by (simp add: backoff_def)

lemma backoff_last: "attempt + 1 = max_retries cfg \<Longrightarrow> backoff cfg attempt slept = slept"
  by (simp add: backoff_def)

lemma retry_loop_failed:
  assumes "attempt < max_retries cfg" "is_failed (attempt_round sv cfg (server attempt))"
  shows "retry_loop sv cfg server attempt last_error slept
     = retry_loop sv cfg server (attempt + 1)
         (Some (LMStudioError (reason (attempt_round sv cfg (server attempt)))))
         (backoff cfg attempt slept)"
  using assms
  by (cases "attempt_round sv cfg (server attempt)")
     (simp_all add: retry_loop.simps [of sv cfg server attempt] is_failed_def reason_def)

lemma powers_step: "a < k \<Longrightarrow> map ((^) (2::nat)) [a..<k] = 2 ^ a # map ((^) 2) [Suc a..<k]"
  by (simp add: upt_conv_Cons)

lemma retry_loop_until:
  assumes "k < max_retries cfg"
  shows "a \<le> k \<Longrightarrow> (\<forall>i. a \<le> i \<and> i < k \<longrightarrow> is_failed (attempt_round sv cfg (server i))) \<Longrightarrow>
     retry_loop sv cfg server a last_error slept
       = retry_loop sv cfg server k
           (if a = k then last_error
            else Some (LMStudioError (reason (attempt_round sv cfg (server (k - 1))))))
           (slept @ map ((^) 2) [a..<k])"
proof (induction "k - a" arbitrary: a last_error slept)
  case 0
  then show ?case by simp
next
  case (Suc n)
  then have a: "a < k" "is_failed (attempt_round sv cfg (server a))" by auto
  with assms have am: "a < max_retries cfg" "a + 1 < max_retries cfg" by auto
  have step: "retry_loop sv cfg server a last_error slept
     = retry_loop sv cfg server (a + 1)
         (Some (LMStudioError (reason (attempt_round sv cfg (server a))))) (slept @ [2 ^ a])"
    using retry_loop_failed [where attempt = a and cfg = cfg and server = server and sv = sv]
      am(1) a(2) backoff_inner [OF am(2)]
    by simp
  from Suc.hyps(2) have n: "n = k - (a + 1)" by simp
  from a(1) have le: "a + 1 \<le> k" by simp
  from Suc.prems(2)
  have rest: "\<forall>i. a + 1 \<le> i \<and> i < k \<longrightarrow> is_failed (attempt_round sv cfg (server i))"
    by simp
  note ih = Suc.hyps(1) [OF n le rest,
      of "Some (LMStudioError (reason (attempt_round sv cfg (server a))))" "slept @ [2 ^ a]"]
  show ?case
  proof (cases "a + 1 = k")
    case True
    then have "k - 1 = a" by arith
    then have "server (k - 1) = server a" by (simp only:)
    with True step a(1) show ?thesis by (auto simp: powers_step)
  next
    case False
    with ih step a(1) show ?thesis by (simp add: powers_step)
  qed
qed

lemma retry_loop_exhausted:
  "a \<le> max_retries cfg
   \<Longrightarrow> (\<forall>i. a \<le> i \<and> i < max_retries cfg \<longrightarrow> is_failed (attempt_round sv cfg (server i)))
   \<Longrightarrow> retry_loop sv cfg server a last_error slept
       = \<lparr>outcome = Inl (if a = max_retries cfg
                          then (case last_error of Some e \<Rightarrow> e
                                | None \<Rightarrow> LMStudioError ''Unbekannter Fehler'')
                          else LMStudioError
                                 (reason (attempt_round sv cfg (server (max_retries cfg - 1))))),
          sleeps = slept @ map ((^) 2) [a..<max_retries cfg - 1],
          requests = max_retries cfg\<rparr>"
proof (induction "max_retries cfg - a" arbitrary: a last_error slept)
  case 0
  then have "a = max_retries cfg" by simp
  then show ?case by (simp add: retry_loop.simps [of sv cfg server "max_retries cfg"])
next
  case (Suc n)
  then have a: "a < max_retries cfg" "is_failed (attempt_round sv cfg (server a))" by auto
  from Suc.hyps(2) have n: "n = max_retries cfg - (a + 1)" by simp
  from a(1) have le: "a + 1 \<le> max_retries cfg" by simp
  from Suc.prems(2)
  have rest: "\<forall>i. a + 1 \<le> i \<and> i < max_retries cfg
                \<longrightarrow> is_failed (attempt_round sv cfg (server i))"
    by simp
  note ih = Suc.hyps(1) [OF n le rest,
      of "Some (LMStudioError (reason (attempt_round sv cfg (server a))))" "backoff cfg a slept"]
  note step = retry_loop_failed [where attempt = a and cfg = cfg and server = server and sv = sv]
  show ?case
  proof (cases "a + 1 = max_retries cfg")
    case True
    then have "max_retries cfg - 1 = a" by arith
    then have "server (max_retries cfg - 1) = server a" by (simp only:)
    with True ih step a backoff_last [OF True] show ?thesis by auto
  next
    case False
    with a(1) have lt: "a + 1 < max_retries cfg" by simp
    then have "a < max_retries cfg - 1" by simp
    with ih step a backoff_inner [OF lt] False show ?thesis
      by (simp add: powers_step)
  qed
qed

lemma retry_loop_requests:
  "a \<le> max_retries cfg
   \<Longrightarrow> requests (retry_loop sv cfg server a last_error slept) \<le> max_retries cfg"
proof (induction "max_retries cfg - a" arbitrary: a last_error slept)
  case 0
  then show ?case by (simp add: retry_loop.simps [of sv cfg server a])
next
  case (Suc n)
  then have a: "a < max_retries cfg" by simp
  from Suc.hyps(2) have n: "n = max_retries cfg - (a + 1)" by simp
  from a have le: "a + 1 \<le> max_retries cfg" by simp
  note ih = Suc.hyps(1) [OF n le]
  from a ih show ?case
    by (cases "attempt_round sv cfg (server a)")
       (simp_all add: retry_loop.simps [of sv cfg server a])
qed

text \<open>
  The schedule of the loop. At most \<open>max_retries\<close> requests are sent. While the rounds
  fail, the next request follows after \<open>2 ^ attempt\<close> seconds, \<open>attempt\<close> counted from 0; a
  round that returns or raises ends the call with no later request and no further
  waiting; when every round fails, the client error with the reason of the last round
  is raised. A timeout, another exception of the requests library and a status other
  than 200 and 422 make a round fail, and so does a response 200 or 422 whose body is
  not JSON; a response 422 with a JSON object raises the validation error.
\<close>

lemma generate_completion_schedule:
  "requests (generate_completion sv cfg server) \<le> max_retries cfg
   \<and> (k < max_retries cfg \<and> (\<forall>i<k. is_failed (attempt_round sv cfg (server i)))
        \<and> attempt_round sv cfg (server k) = Return result \<longrightarrow>
        generate_completion sv cfg server
          = \<lparr>outcome = Inr result, sleeps = map ((^) 2) [0..<k], requests = k + 1\<rparr>)
   \<and> (k < max_retries cfg \<and> (\<forall>i<k. is_failed (attempt_round sv cfg (server i)))
        \<and> attempt_round sv cfg (server k) = Raise e \<longrightarrow>
        generate_completion sv cfg server
          = \<lparr>outcome = Inl e, sleeps = map ((^) 2) [0..<k], requests = k + 1\<rparr>)
   \<and> (0 < max_retries cfg \<and> (\<forall>i<max_retries cfg. is_failed (attempt_round sv cfg (server i)))
        \<longrightarrow> generate_completion sv cfg server
          = \<lparr>outcome = Inl (LMStudioError
                             (reason (attempt_round sv cfg (server (max_retries cfg - 1))))),
             sleeps = map ((^) 2) [0..<max_retries cfg - 1], requests = max_retries cfg\<rparr>)"
proof (intro conjI impI)
  show "requests (generate_completion sv cfg server) \<le> max_retries cfg"
    by (simp add: generate_completion_def retry_loop_requests)
next
  assume h: "k < max_retries cfg \<and> (\<forall>i<k. is_failed (attempt_round sv cfg (server i)))
        \<and> attempt_round sv cfg (server k) = Return result"
  then have tr: "\<forall>i. 0 \<le> i \<and> i < k \<longrightarrow> is_failed (attempt_round sv cfg (server i))" by simp
  from h have km: "k < max_retries cfg" by simp
  from retry_loop_until [OF km _ tr, of None "[]"] h
  show "generate_completion sv cfg server
          = \<lparr>outcome = Inr result, sleeps = map ((^) 2) [0..<k], requests = k + 1\<rparr>"
    by (simp add: generate_completion_def retry_loop.simps [of sv cfg server k])
next
  assume h: "k < max_retries cfg \<and> (\<forall>i<k. is_failed (attempt_round sv cfg (server i)))
        \<and> attempt_round sv cfg (server k) = Raise e"
  then have tr: "\<forall>i. 0 \<le> i \<and> i < k \<longrightarrow> is_failed (attempt_round sv cfg (server i))" by simp
  from h have km: "k < max_retries cfg" by simp
  from retry_loop_until [OF km _ tr, of None "[]"] h
  show "generate_completion sv cfg server
          = \<lparr>outcome = Inl e, sleeps = map ((^) 2) [0..<k], requests = k + 1\<rparr>"
    by (simp add: generate_completion_def retry_loop.simps [of sv cfg server k])
next
  assume h: "0 < max_retries cfg
    \<and> (\<forall>i<max_retries cfg. is_failed (attempt_round sv cfg (server i)))"
  then have tr: "\<forall>i. 0 \<le> i \<and> i < max_retries cfg
                   \<longrightarrow> is_failed (attempt_round sv cfg (server i))"
    by simp
  from retry_loop_exhausted [OF _ tr, of None "[]"] h
  show "generate_completion sv cfg server
          = \<lparr>outcome = Inl (LMStudioError
                             (reason (attempt_round sv cfg (server (max_retries cfg - 1))))),
             sleeps = map ((^) 2) [0..<max_retries cfg - 1], requests = max_retries cfg\<rparr>"
    by (simp add: generate_completion_def)
qed

lemma attempt_round_cases:
  "attempt_round sv cfg Timeout = Failed (''Timeout nach '' @ str_nat (timeout cfg) @ '' Sekunden'')"
  "attempt_round sv cfg (RequestException msg) = Failed (''Netzwerk-Fehler: '' @ msg)"
  "status_code \<noteq> 200 \<Longrightarrow> status_code \<noteq> 422 \<Longrightarrow>
     attempt_round sv cfg (Response status_code body_text body)
       = Failed (''HTTP '' @ str_nat status_code @ '': '' @ body_text)"
  "attempt_round sv cfg (Response 422 body_text (JsonBody (JObj d)))
     = Raise (LMStudioError (''Validierungsfehler: ''
                @ sv (dict_get d ''detail'' (JStr ''Validation Error''))))"
  "attempt_round sv cfg (Response 422 body_text (NotJson msg)) = Failed (''Netzwerk-Fehler: '' @ msg)"
  "attempt_round sv cfg (Response 200 body_text (NotJson msg)) = Failed (''Netzwerk-Fehler: '' @ msg)"
  by (simp_all add: attempt_round_def)

lemma generate_completion_examples:
  "generate_completion str_text default_config flaky_server
     = \<lparr>outcome = Inr completion, sleeps = [1, 2], requests = 3\<rparr>"
  "generate_completion str_text default_config silent_server
     = \<lparr>outcome = Inl (LMStudioError ''Timeout nach 120 Sekunden''),
        sleeps = [1, 2], requests = 3\<rparr>"
  by code_simp+

text \<open>
  C7. The claim holds of the code except in one case, which the code's own comment
  (validation error, not retryable) excludes: a response 422 whose body is not JSON.
  \<open>response.json()\<close> then raises inside the \<open>try\<close>, the clause for \<open>RequestException\<close>
  catches it, and the request is sent again after waiting, three times with the default
  configuration, until the client error of a network failure is raised. A response 422
  with a JSON object raises the validation error after one request.
\<close>

theorem generate_completion_retries_plain_422:
  "generate_completion str_text default_config plain_rejecting_server
     = \<lparr>outcome = Inl (LMStudioError
                        ''Netzwerk-Fehler: Expecting value: line 1 column 1 (char 0)''),
        sleeps = [1, 2], requests = 3\<rparr>
   \<and> generate_completion str_text default_config rejecting_server
     = \<lparr>outcome = Inl (LMStudioError ''Validierungsfehler: messages must not be empty''),
        sleeps = [], requests = 1\<rparr>"
proof -
  have 1: "generate_completion str_text default_config plain_rejecting_server
     = \<lparr>outcome = Inl (LMStudioError
                        ''Netzwerk-Fehler: Expecting value: line 1 column 1 (char 0)''),
        sleeps = [1, 2], requests = 3\<rparr>"
    by code_simp
  have 2: "generate_completion str_text default_config rejecting_server
     = \<lparr>outcome = Inl (LMStudioError ''Validierungsfehler: messages must not be empty''),
        sleeps = [], requests = 1\<rparr>"
    by code_simp
  from 1 2 show ?thesis by (rule conjI)
qed

end
